theory Spec2Isabelle
  imports Complex_Main "HOL-Library.Multiset" "HOL-Library.Extended_Nat" "HOL-Library.AList"
    "HOL-Library.List_Lexorder" "HOL-Library.Char_ord" "HOL-Library.Log_Nat"
begin

section \<open>The OffChain ranking service (apps/OffChain/src/index.ts)\<close>

text \<open>
  The service keeps one JSON document per token in a Redis store, ranks the documents by
  their final score, caches the ranking for two minutes, and periodically fuses a social
  score into the stored documents of a rank window.

  Conventions of the embedding:
  \<^item> a number the code computes is a \<open>number\<close>: a double, \<open>NaN\<close> or an infinity, and every
    arithmetic operation rounds its exact result to the nearest double (ties to even);
  \<^item> a number read from a stored JSON document is finite and is kept as the \<open>real\<close> it
    denotes;
  \<^item> a string is the list of the bytes of its UTF-8 encoding;
  \<^item> a property that may be \<open>undefined\<close> is an \<open>option\<close>;
  \<^item> a rejected promise or a thrown exception is \<open>Inl\<close> of an \<open>exn\<close>; a
    \<open>try { ... } catch\<close> is a case distinction on that sum;
  \<^item> \<open>Date.now()\<close> is a parameter \<open>now\<close>, in milliseconds;
  \<^item> the module-level variables \<open>cachedRankings\<close>, \<open>lastRankingUpdate\<close> and the
    Redis client are the fields of the record \<open>state\<close>, passed and returned.
\<close>

subsection \<open>JavaScript numbers\<close>

text \<open>
  The values of the type Number. The two zeros are one value: no operation of index.ts
  tells them apart (the only division is by the literal 10, and \<open>JSON.stringify\<close> prints
  both as 0). \<open>Num x\<close> stands for a double when \<open>x\<close> is one; the operations below return
  doubles only.
\<close>

datatype number = NaN | PosInf | NegInf | Num real

text \<open>\<open>pow2 e\<close> is 2 to the power \<open>e\<close>, for an integer exponent.\<close>

definition pow2 :: "int \<Rightarrow> real" where
  "pow2 e = (if 0 \<le> e then 2 ^ nat e else 1 / 2 ^ nat (- e))"

text \<open>
  The binary exponent of a positive real: the \<open>k\<close> with \<open>pow2 k \<le> x < pow2 (k + 1)\<close>.
\<close>

definition expo :: "real \<Rightarrow> int" where
  "expo x = (if 1 \<le> x then bitlen \<lfloor>x\<rfloor> - 1 else - bitlen (\<lceil>1 / x\<rceil> - 1))"

text \<open>Rounding to the nearest integer, a tie to the even one.\<close>

definition rne :: "real \<Rightarrow> int" where
  "rne y =
     (let f = \<lfloor>y\<rfloor>; d = y - of_int f
      in if d < 1 / 2 then f else if 1 / 2 < d then f + 1 else if even f then f else f + 1)"

text \<open>
  IEEE 754 binary64 rounding of an exact result, to nearest and ties to even: 53
  significant bits, the spacing \<open>pow2 (- 1074)\<close> below \<open>pow2 (- 1022)\<close>, and an infinity
  when the rounded value reaches \<open>pow2 1024\<close>.
\<close>

definition fl :: "real \<Rightarrow> number" where
  "fl x =
     (if x = 0 then Num 0
      else
        (let e = max (expo \<bar>x\<bar> - 52) (- 1074);
             r = of_int (rne (x / pow2 e)) * pow2 e
         in if pow2 1024 \<le> \<bar>r\<bar> then (if 0 < x then PosInf else NegInf) else Num r))"

text \<open>A decimal literal of the source denotes the nearest double.\<close>

definition lit :: "real \<Rightarrow> number" where
  "lit x = fl x"

text \<open>\<open>a + b\<close>\<close>

fun jsadd :: "number \<Rightarrow> number \<Rightarrow> number" where
  "jsadd NaN b = NaN"
| "jsadd a NaN = NaN"
| "jsadd PosInf NegInf = NaN"
| "jsadd NegInf PosInf = NaN"
| "jsadd PosInf b = PosInf"
| "jsadd a PosInf = PosInf"
| "jsadd NegInf b = NegInf"
| "jsadd a NegInf = NegInf"
| "jsadd (Num x) (Num y) = fl (x + y)"

text \<open>\<open>a * b\<close>\<close>

fun jsmul :: "number \<Rightarrow> number \<Rightarrow> number" where
  "jsmul NaN b = NaN"
| "jsmul a NaN = NaN"
| "jsmul PosInf PosInf = PosInf"
| "jsmul PosInf NegInf = NegInf"
| "jsmul NegInf PosInf = NegInf"
| "jsmul NegInf NegInf = PosInf"
| "jsmul PosInf (Num y) = (if y = 0 then NaN else if 0 < y then PosInf else NegInf)"
| "jsmul NegInf (Num y) = (if y = 0 then NaN else if 0 < y then NegInf else PosInf)"
| "jsmul (Num x) PosInf = (if x = 0 then NaN else if 0 < x then PosInf else NegInf)"
| "jsmul (Num x) NegInf = (if x = 0 then NaN else if 0 < x then NegInf else PosInf)"
| "jsmul (Num x) (Num y) = fl (x * y)"

text \<open>\<open>a / b\<close>; a zero divisor is the positive zero.\<close>

fun jsdiv :: "number \<Rightarrow> number \<Rightarrow> number" where
  "jsdiv NaN b = NaN"
| "jsdiv a NaN = NaN"
| "jsdiv PosInf PosInf = NaN"
| "jsdiv PosInf NegInf = NaN"
| "jsdiv NegInf PosInf = NaN"
| "jsdiv NegInf NegInf = NaN"
| "jsdiv PosInf (Num y) = (if 0 \<le> y then PosInf else NegInf)"
| "jsdiv NegInf (Num y) = (if 0 \<le> y then NegInf else PosInf)"
| "jsdiv (Num x) PosInf = Num 0"
| "jsdiv (Num x) NegInf = Num 0"
| "jsdiv (Num x) (Num y) =
     (if y = 0 then (if x = 0 then NaN else if 0 < x then PosInf else NegInf)
      else fl (x / y))"

text \<open>\<open>Math.min(a, b)\<close> and \<open>Math.max(a, b)\<close>: \<open>NaN\<close> if an argument is.\<close>

fun Math_min :: "number \<Rightarrow> number \<Rightarrow> number" where
  "Math_min NaN b = NaN"
| "Math_min a NaN = NaN"
| "Math_min NegInf b = NegInf"
| "Math_min a NegInf = NegInf"
| "Math_min PosInf b = b"
| "Math_min a PosInf = a"
| "Math_min (Num x) (Num y) = Num (min x y)"

fun Math_max :: "number \<Rightarrow> number \<Rightarrow> number" where
  "Math_max NaN b = NaN"
| "Math_max a NaN = NaN"
| "Math_max PosInf b = PosInf"
| "Math_max a PosInf = PosInf"
| "Math_max NegInf b = b"
| "Math_max a NegInf = a"
| "Math_max (Num x) (Num y) = Num (max x y)"

text \<open>
  \<open>Math.round\<close>: the nearest integer, a half towards \<open>+\<infinity>\<close>. The result is exact: a
  double of magnitude \<open>pow2 52\<close> or more is an integer already.
\<close>

fun Math_round :: "number \<Rightarrow> number" where
  "Math_round (Num x) = Num (of_int \<lfloor>x + 1 / 2\<rfloor>)"
| "Math_round a = a"

text \<open>Truthiness of a number: \<open>0\<close> and \<open>NaN\<close> are falsy.\<close>

fun truthy :: "number \<Rightarrow> bool" where
  "truthy (Num x) = (x \<noteq> 0)"
| "truthy NaN = False"
| "truthy a = True"

text \<open>
  A number after \<open>JSON.stringify\<close> and \<open>JSON.parse\<close>: \<open>NaN\<close> and the infinities are
  printed as \<open>null\<close>, which reads like a missing property in every \<open>||\<close> of index.ts.
\<close>

fun JSON_number :: "number \<Rightarrow> real option" where
  "JSON_number (Num x) = Some x"
| "JSON_number a = None"

text \<open>The same for a property that may be \<open>undefined\<close> (and is then left out).\<close>

definition JSON_field :: "number option \<Rightarrow> real option" where
  "JSON_field v = (case v of None \<Rightarrow> None | Some n \<Rightarrow> JSON_number n)"

subsection \<open>JavaScript helpers\<close>

datatype exn = RedisError | SyntaxError | FetchError

text \<open>A destructuring default \<open>{ x = d } = obj\<close>: the default replaces \<open>undefined\<close> only.\<close>

definition dflt :: "'a \<Rightarrow> 'a option \<Rightarrow> 'a" where
  "dflt d v = (case v of None \<Rightarrow> d | Some x \<Rightarrow> x)"

text \<open>
  \<open>a || b\<close> on a stored number that may be missing: \<open>undefined\<close>, \<open>null\<close> and \<open>0\<close> are
  falsy.
\<close>

definition num_or :: "real option \<Rightarrow> real \<Rightarrow> real" where
  "num_or a b = (case a of None \<Rightarrow> b | Some x \<Rightarrow> if x \<noteq> 0 then x else b)"

text \<open>\<open>a || b\<close> on a string that may be undefined: \<open>undefined\<close> and \<open>''\<close> are falsy.\<close>

definition str_or :: "string option \<Rightarrow> string \<Rightarrow> string" where
  "str_or a b = (case a of None \<Rightarrow> b | Some x \<Rightarrow> if x \<noteq> [] then x else b)"

text \<open>\<open>a || b\<close> on a string that is defined: only \<open>''\<close> is falsy.\<close>

definition s_or :: "string \<Rightarrow> string \<Rightarrow> string" where
  "s_or a b = (if a \<noteq> [] then a else b)"

text \<open>
  \<open>Array.prototype.slice(start, end)\<close> for a start \<open>\<ge> 0\<close> and an end that is a
  non-negative integer or \<open>Infinity\<close>.
\<close>

definition slice :: "nat \<Rightarrow> enat \<Rightarrow> 'a list \<Rightarrow> 'a list" where
  "slice start end xs =
     (case end of enat e \<Rightarrow> take (e - start) (drop start xs) | \<infinity> \<Rightarrow> drop start xs)"

text \<open>
  What \<open>obj[key]\<close> finds on an object literal: an own property with its value, a member
  inherited from \<open>Object.prototype\<close> (a function, or the prototype object for
  \<open>__proto__\<close>), or nothing (\<open>undefined\<close>).
\<close>

datatype property = Own number | Inherited | Missing

definition Object_prototype_members :: "string list" where
  "Object_prototype_members =
     [''constructor'', ''__defineGetter__'', ''__defineSetter__'', ''hasOwnProperty'',
      ''__lookupGetter__'', ''__lookupSetter__'', ''isPrototypeOf'', ''propertyIsEnumerable'',
      ''toString'', ''valueOf'', ''__proto__'', ''toLocaleString'']"

definition get_property :: "(string \<times> number) list \<Rightarrow> string \<Rightarrow> property" where
  "get_property obj key =
     (case map_of obj key of
        Some v \<Rightarrow> Own v
      | None \<Rightarrow> if key \<in> set Object_prototype_members then Inherited else Missing)"

subsection \<open>Data\<close>

text \<open>
  \<open>AnalyzedToken\<close> is declared in aggregator.ts; the fields are the ones index.ts reads
  and writes (lines 74-81, 155-160, 195, 203-216). The numeric fields and the risk label
  are the ones \<open>calculateSocialScore\<close> destructures with a default.
\<close>

record analyzedToken =
  tokenName :: string
  ticker :: "string option"
  sentiment :: string
  sentimentScore :: "number option"
  trendingScore :: "number option"
  signals :: "string list"
  riskLevel :: "string option"
  mentionCount :: "number option"
  avgEngagement :: "number option"
  keyPhrases :: "string list"
  recommendation :: string
  confidence :: "number option"
  reasoning :: string

subsection \<open>calculateSocialScore (lines 73-99)\<close>

text \<open>The object literal of lines 83-88.\<close>

definition riskPenalty_table :: "(string \<times> number) list" where
  "riskPenalty_table =
     [(''low'', Num 1), (''medium'', lit 0.8), (''high'', lit 0.5), (''extreme'', lit 0.2)]"

text \<open>
  Line 88, \<open>{...}[riskLevel] || 0.8\<close>. An inherited member is a function or an object:
  it is truthy, so \<open>||\<close> keeps it, and as a factor of line 98 it converts to \<open>NaN\<close>.
\<close>

definition riskPenalty_of :: "string \<Rightarrow> number" where
  "riskPenalty_of riskLevel' =
     (case get_property riskPenalty_table riskLevel' of
        Own v \<Rightarrow> if truthy v then v else lit 0.8
      | Inherited \<Rightarrow> NaN
      | Missing \<Rightarrow> lit 0.8)"

definition calculateSocialScore :: "analyzedToken \<Rightarrow> number" where
  "calculateSocialScore tokenAnalysis =
     (let sentimentScore' = dflt (Num 0) (sentimentScore tokenAnalysis);
          trendingScore' = dflt (Num 0) (trendingScore tokenAnalysis);
          mentionCount' = dflt (Num 0) (mentionCount tokenAnalysis);
          avgEngagement' = dflt (Num 0) (avgEngagement tokenAnalysis);
          confidence' = dflt (Num 0) (confidence tokenAnalysis);
          riskLevel' = dflt ''medium'' (riskLevel tokenAnalysis);
          riskPenalty = riskPenalty_of riskLevel';
          baseScore =
            jsadd (jsadd (jsadd (jsadd
              (jsmul trendingScore' (lit 0.3))
              (jsmul (jsmul (jsadd sentimentScore' (Num 1)) (Num 50)) (lit 0.25)))
              (jsmul (Math_min mentionCount' (Num 100)) (lit 0.2)))
              (jsmul (Math_min (jsdiv avgEngagement' (Num 10)) (Num 100)) (lit 0.15)))
              (jsmul (jsmul confidence' (Num 100)) (lit 0.1))
      in Math_max (Num 0) (Math_min (Num 100) (Math_round (jsmul baseScore riskPenalty))))"

subsection \<open>The Score Store: the Redis client (lines 51-61)\<close>

text \<open>
  The social part of a stored document, as \<open>updateTokenSocialScore\<close> writes it
  (lines 154-162). \<open>lastUpdated\<close> is the time of the write; the source stores it as an ISO
  string, the model keeps the milliseconds.
\<close>

record socialAnalysisRec =
  sa_sentiment :: string
  sa_sentimentScore :: "real option"
  sa_mentionCount :: "real option"
  sa_riskLevel :: "string option"
  sa_recommendation :: string
  sa_confidence :: "real option"
  sa_lastUpdated :: int

text \<open>
  A stored token document: the properties index.ts reads or writes. \<open>trendingscore\<close> is
  the on-chain score, written by the on-chain bootstrap outside this file.
\<close>

record tokenData =
  address :: string
  name :: "string option"
  symbol :: "string option"
  trendingscore :: "real option"
  socialScore :: "real option"
  finalScore :: "real option"
  socialAnalysis :: "socialAnalysisRec option"

text \<open>
  A stored value is a non-empty string: the JSON text of a document, or text on which
  \<open>JSON.parse\<close> throws.
\<close>

datatype stored = Doc tokenData | Unparsable

definition JSON_parse :: "stored \<Rightarrow> exn + tokenData" where
  "JSON_parse v = (case v of Doc d \<Rightarrow> Inr d | Unparsable \<Rightarrow> Inl SyntaxError)"

text \<open>
  The keyspace is an association list, in the order in which the server enumerates it for
  \<open>KEYS\<close>. An unreachable store makes every command reject. \<open>writes\<close> is the log of
  the \<open>SET\<close> commands the server has applied, the oldest first: between two entries of
  the log the keyspace does not change, so the log tells which states of the keyspace a
  reader of the store can see.
\<close>

record redis =
  db :: "(string \<times> stored) list"
  reachable :: bool
  writes :: "(string \<times> stored) list"

definition matches_0x :: "string \<Rightarrow> bool" where
  "matches_0x k = (take 2 k = ''0x'')"

text \<open>\<open>client.keys('0x*')\<close>\<close>

definition client_keys :: "redis \<Rightarrow> exn + string list" where
  "client_keys c =
     (if reachable c then Inr (filter matches_0x (map fst (db c))) else Inl RedisError)"

text \<open>\<open>client.get(key)\<close>: \<open>null\<close> for a key that is not there.\<close>

definition client_get :: "redis \<Rightarrow> string \<Rightarrow> exn + stored option" where
  "client_get c k = (if reachable c then Inr (map_of (db c) k) else Inl RedisError)"

text \<open>
  \<open>client.mGet(keys)\<close>: one value or \<open>null\<close> per key. The server rejects \<open>MGET\<close>
  without a key (wrong number of arguments).
\<close>

definition client_mGet :: "redis \<Rightarrow> string list \<Rightarrow> exn + stored option list" where
  "client_mGet c ks =
     (if reachable c \<and> ks \<noteq> [] then Inr (map (map_of (db c)) ks) else Inl RedisError)"

text \<open>\<open>client.set(key, value)\<close>\<close>

definition client_set :: "redis \<Rightarrow> string \<Rightarrow> stored \<Rightarrow> exn + redis" where
  "client_set c k v =
     (if reachable c
      then Inr (c\<lparr>db := AList.update k v (db c), writes := writes c @ [(k, v)]\<rparr>)
      else Inl RedisError)"

subsection \<open>The module state (lines 51, 69-71)\<close>

text \<open>An entry of the ranking, built at lines 116-121.\<close>

record rankedToken =
  r_address :: string
  r_name :: string
  r_symbol :: string
  r_finalScore :: real

record state =
  client :: redis
  cachedRankings :: "rankedToken list"
  lastRankingUpdate :: int

definition RANKING_CACHE_TTL :: int where
  "RANKING_CACHE_TTL = 2 * 60 * 1000"

text \<open>
  An async function is a function from the state to its outcome and the state it leaves:
  \<open>Inl\<close> is a rejection. \<open>catching\<close> is \<open>try { body } catch { return fallback }\<close>: what
  the body changed before it threw stays changed.
\<close>

type_synonym 'a async = "state \<Rightarrow> (exn + 'a) \<times> state"

definition catching :: "'a async \<Rightarrow> 'a \<Rightarrow> 'a async" where
  "catching body fallback s =
     (case body s of (Inl e, s') \<Rightarrow> (Inr fallback, s') | (Inr r, s') \<Rightarrow> (Inr r, s'))"

subsection \<open>getTokenAddressesSorted (lines 101-134)\<close>

text \<open>Lines 113-115: \<open>values.map(v => v ? JSON.parse(v) : null).filter(Boolean)\<close>.\<close>

fun parseValues :: "stored option list \<Rightarrow> exn + tokenData list" where
  "parseValues [] = Inr []"
| "parseValues (None # vs) = parseValues vs"
| "parseValues (Some v # vs) =
     (case JSON_parse v of
        Inl e \<Rightarrow> Inl e
      | Inr d \<Rightarrow> (case parseValues vs of Inl e \<Rightarrow> Inl e | Inr ds \<Rightarrow> Inr (d # ds)))"

text \<open>Lines 116-121.\<close>

definition toRanked :: "tokenData \<Rightarrow> rankedToken" where
  "toRanked v =
     \<lparr>r_address = address v,
      r_name = str_or (name v) [],
      r_symbol = str_or (symbol v) [],
      r_finalScore = num_or (finalScore v) (num_or (trendingscore v) 0)\<rparr>"

text \<open>
  Line 123: \<open>tokens.sort((a, b) => b.finalScore - a.finalScore)\<close>. \<open>Array.prototype.sort\<close>
  is stable, so this is the stable sort by descending \<open>finalScore\<close>.
\<close>

definition sortDesc :: "rankedToken list \<Rightarrow> rankedToken list" where
  "sortDesc tokens = sort_key (\<lambda>t. - r_finalScore t) tokens"

definition getTokenAddressesSorted_body :: "int \<Rightarrow> rankedToken list async" where
  "getTokenAddressesSorted_body now s =
     (if cachedRankings s \<noteq> [] \<and> now - lastRankingUpdate s < RANKING_CACHE_TTL
      then (Inr (cachedRankings s), s)
      else
        (case client_keys (client s) of
           Inl e \<Rightarrow> (Inl e, s)
         | Inr keys \<Rightarrow>
             if keys = [] then (Inr [], s)
             else
               (case client_mGet (client s) keys of
                  Inl e \<Rightarrow> (Inl e, s)
                | Inr values \<Rightarrow>
                    (case parseValues values of
                       Inl e \<Rightarrow> (Inl e, s)
                     | Inr docs \<Rightarrow>
                         (let tokens = map toRanked docs;
                              sorted = sortDesc tokens
                          in (Inr sorted,
                              s\<lparr>cachedRankings := sorted, lastRankingUpdate := now\<rparr>))))))"

definition getTokenAddressesSorted :: "int \<Rightarrow> rankedToken list async" where
  "getTokenAddressesSorted now = catching (getTokenAddressesSorted_body now) []"

subsection \<open>updateTokenSocialScore (lines 136-170)\<close>

definition updateTokenSocialScore_body ::
  "string \<Rightarrow> number \<Rightarrow> analyzedToken \<Rightarrow> int \<Rightarrow> unit async" where
  "updateTokenSocialScore_body address' socialScore' socialAnalysis' now s =
     (case client_get (client s) address' of
        Inl e \<Rightarrow> (Inl e, s)
      | Inr None \<Rightarrow> (Inr (), s)
      | Inr (Some existingData) \<Rightarrow>
          (case JSON_parse existingData of
             Inl e \<Rightarrow> (Inl e, s)
           | Inr tokenData \<Rightarrow>
               (let onChainScore = Num (num_or (trendingscore tokenData) 0);
                    finalScore' = Math_round
                      (jsadd (jsmul onChainScore (lit 0.6)) (jsmul socialScore' (lit 0.4)));
                    updatedData = tokenData
                      \<lparr>socialScore := JSON_number socialScore',
                       finalScore := JSON_number finalScore',
                       socialAnalysis := Some
                         \<lparr>sa_sentiment = sentiment socialAnalysis',
                          sa_sentimentScore = JSON_field (sentimentScore socialAnalysis'),
                          sa_mentionCount = JSON_field (mentionCount socialAnalysis'),
                          sa_riskLevel = riskLevel socialAnalysis',
                          sa_recommendation = recommendation socialAnalysis',
                          sa_confidence = JSON_field (confidence socialAnalysis'),
                          sa_lastUpdated = now\<rparr>\<rparr>
                in (case client_set (client s) address' (Doc updatedData) of
                      Inl e \<Rightarrow> (Inl e, s)
                    | Inr client' \<Rightarrow>
                        (Inr (), s\<lparr>client := client', cachedRankings := []\<rparr>)))))"

definition updateTokenSocialScore ::
  "string \<Rightarrow> number \<Rightarrow> analyzedToken \<Rightarrow> int \<Rightarrow> unit async" where
  "updateTokenSocialScore address' socialScore' socialAnalysis' now =
     catching (updateTokenSocialScore_body address' socialScore' socialAnalysis' now) ()"

subsection \<open>updateTokensByRankRange (lines 172-226)\<close>

text \<open>
  Lines 183-191 fetch the posts and run the aggregator of aggregator.ts; both are outside
  this file. They are the parameter \<open>social\<close>: from the tickers to
  \<open>analysis.topTrending\<close>, or a rejection.
\<close>

type_synonym social = "string list \<Rightarrow> exn + analyzedToken list"

text \<open>
  \<open>String.prototype.toLowerCase\<close> follows the case mapping of the Unicode tables of the
  engine. It is the parameter \<open>toLowerCase\<close> of the functions below, on the UTF-8 bytes.
\<close>

type_synonym lower = "string \<Rightarrow> string"

text \<open>Lines 193-197: later entries overwrite earlier ones under the same key.\<close>

definition buildAnalysisMap ::
  "lower \<Rightarrow> analyzedToken list \<Rightarrow> (string \<rightharpoonup> analyzedToken)" where
  "buildAnalysisMap toLowerCase topTrending =
     fold (\<lambda>token m. m(toLowerCase (str_or (ticker token) (tokenName token)) \<mapsto> token))
       topTrending Map.empty"

text \<open>Lines 203-216: the analysis written for a token without social data.\<close>

definition noMentions :: "rankedToken \<Rightarrow> analyzedToken" where
  "noMentions token =
     \<lparr>tokenName = s_or (r_name token) (s_or (r_symbol token) ''Unknown''),
      ticker = None,
      sentiment = ''neutral'',
      sentimentScore = Some (Num 0),
      trendingScore = Some (Num 0),
      signals = [],
      riskLevel = Some ''medium'',
      mentionCount = Some (Num 0),
      avgEngagement = Some (Num 0),
      keyPhrases = [],
      recommendation = ''hold'',
      confidence = Some (Num 0),
      reasoning = ''No recent social media mentions''\<rparr>"

text \<open>Lines 199-220, the callback of \<open>tokensToUpdate.map\<close>.\<close>

definition tickerOf :: "rankedToken \<Rightarrow> string" where
  "tickerOf t = s_or (r_symbol t) (s_or (r_name t) [])"

definition tokenKey :: "lower \<Rightarrow> rankedToken \<Rightarrow> string" where
  "tokenKey toLowerCase token = toLowerCase (tickerOf token)"

definition tokenSocialScore ::
  "lower \<Rightarrow> (string \<rightharpoonup> analyzedToken) \<Rightarrow> rankedToken \<Rightarrow> number" where
  "tokenSocialScore toLowerCase analysisMap token =
     (case analysisMap (tokenKey toLowerCase token) of
        Some socialAnalysis' \<Rightarrow> calculateSocialScore socialAnalysis'
      | None \<Rightarrow> Num 30)"

definition tokenFinalAnalysis ::
  "lower \<Rightarrow> (string \<rightharpoonup> analyzedToken) \<Rightarrow> rankedToken \<Rightarrow> analyzedToken" where
  "tokenFinalAnalysis toLowerCase analysisMap token =
     (case analysisMap (tokenKey toLowerCase token) of
        Some socialAnalysis' \<Rightarrow> socialAnalysis'
      | None \<Rightarrow> noMentions token)"

definition refreshToken ::
  "lower \<Rightarrow> (string \<rightharpoonup> analyzedToken) \<Rightarrow> int \<Rightarrow> rankedToken \<Rightarrow> unit async" where
  "refreshToken toLowerCase analysisMap now token =
     updateTokenSocialScore (r_address token) (tokenSocialScore toLowerCase analysisMap token)
       (tokenFinalAnalysis toLowerCase analysisMap token) now"

text \<open>
  \<open>Promise.all\<close> over the callbacks: the updates are taken one after the other, in the
  order of the window.
\<close>

fun refreshAll ::
  "lower \<Rightarrow> (string \<rightharpoonup> analyzedToken) \<Rightarrow> int \<Rightarrow> rankedToken list \<Rightarrow> unit async" where
  "refreshAll toLowerCase analysisMap now [] s = (Inr (), s)"
| "refreshAll toLowerCase analysisMap now (token # tokens) s =
     (case refreshToken toLowerCase analysisMap now token s of
        (Inl e, s') \<Rightarrow> (Inl e, s')
      | (Inr u, s') \<Rightarrow> refreshAll toLowerCase analysisMap now tokens s')"

definition updateTokensByRankRange_body ::
  "lower \<Rightarrow> social \<Rightarrow> nat \<Rightarrow> enat \<Rightarrow> int \<Rightarrow> unit async" where
  "updateTokensByRankRange_body toLowerCase social startRank endRank now s =
     (case getTokenAddressesSorted now s of
        (Inl e, s1) \<Rightarrow> (Inl e, s1)
      | (Inr sortedTokens, s1) \<Rightarrow>
          (let tokensToUpdate = slice startRank endRank sortedTokens
           in if tokensToUpdate = [] then (Inr (), s1)
              else
                (let tokenTickers = filter (\<lambda>t. t \<noteq> []) (map tickerOf tokensToUpdate)
                 in if tokenTickers = [] then (Inr (), s1)
                    else
                      (case social tokenTickers of
                         Inl e \<Rightarrow> (Inl e, s1)
                       | Inr topTrending \<Rightarrow>
                           refreshAll toLowerCase (buildAnalysisMap toLowerCase topTrending)
                             now tokensToUpdate s1))))"

definition updateTokensByRankRange ::
  "lower \<Rightarrow> social \<Rightarrow> nat \<Rightarrow> enat \<Rightarrow> int \<Rightarrow> unit async" where
  "updateTokensByRankRange toLowerCase social startRank endRank now =
     catching (updateTokensByRankRange_body toLowerCase social startRank endRank now) ()"

subsection \<open>startScheduledUpdates (lines 228-233)\<close>

text \<open>The three timers: the rank window of each and its period in milliseconds.\<close>

definition startScheduledUpdates :: "(nat \<times> enat \<times> int) list" where
  "startScheduledUpdates =
     [(0, 20, 5 * 60 * 1000), (20, 100, 20 * 60 * 1000), (100, \<infinity>, 30 * 60 * 1000)]"

subsection \<open>GET /top-tokens (lines 291-302)\<close>

datatype response = Json "(tokenData \<times> nat) list" | Status500 string

text \<open>
  \<open>tokens.slice(0, limit)\<close> for an integer limit: a negative limit counts from the end.
\<close>

definition slice_to :: "int \<Rightarrow> 'a list \<Rightarrow> 'a list" where
  "slice_to limit xs =
     (if 0 \<le> limit then take (nat limit) xs else take (length xs - nat (- limit)) xs)"

text \<open>
  \<open>limitParam\<close> is \<open>parseInt(req.query.limit)\<close>, \<open>None\<close> when that is \<open>NaN\<close>.
\<close>

definition app_get_top_tokens :: "int option \<Rightarrow> int \<Rightarrow> state \<Rightarrow> response \<times> state" where
  "app_get_top_tokens limitParam now s =
     (let limit = (case limitParam of None \<Rightarrow> 50 | Some n \<Rightarrow> if n \<noteq> 0 then n else 50)
      in case getTokenAddressesSorted now s of
           (Inl e, s1) \<Rightarrow> (Status500 ''Failed to fetch top tokens'', s1)
         | (Inr tokens, s1) \<Rightarrow>
             (let topAddresses = slice_to limit tokens
              in case client_mGet (client s1) (map r_address topAddresses) of
                   Inl e \<Rightarrow> (Status500 ''Failed to fetch top tokens'', s1)
                 | Inr values \<Rightarrow>
                     (case parseValues values of
                        Inl e \<Rightarrow> (Status500 ''Failed to fetch top tokens'', s1)
                      | Inr fullData \<Rightarrow>
                          (Json (zip fullData [1 ..< Suc (length fullData)]), s1))))"

section \<open>Vocabulary of the properties\<close>

subsection \<open>What a reachable store holds\<close>

text \<open>
  The documents a rebuild reads: lines 109-115 on a reachable store, the keys matching
  \<open>0x*\<close> and the parsed values under them.
\<close>

definition scanStore :: "redis \<Rightarrow> exn + tokenData list" where
  "scanStore c = parseValues (map (map_of (db c)) (filter matches_0x (map fst (db c))))"

text \<open>The ranking a rebuild returns on a reachable store (the empty one when a value does not parse).\<close>

definition storeRanking :: "redis \<Rightarrow> rankedToken list" where
  "storeRanking c =
     (case scanStore c of Inl e \<Rightarrow> [] | Inr docs \<Rightarrow> sortDesc (map toRanked docs))"

text \<open>The documents under the keys matching \<open>0x*\<close>, in the order of the keyspace.\<close>

fun docsOf :: "(string \<times> stored) list \<Rightarrow> tokenData list" where
  "docsOf [] = []"
| "docsOf ((k, v) # al) =
     (case v of
        Doc d \<Rightarrow> if matches_0x k then d # docsOf al else docsOf al
      | Unparsable \<Rightarrow> docsOf al)"

text \<open>Every value under a key matching \<open>0x*\<close> parses.\<close>

definition parsable :: "(string \<times> stored) list \<Rightarrow> bool" where
  "parsable al = (\<forall>(k, v) \<in> set al. matches_0x k \<longrightarrow> v \<noteq> Unparsable)"

subsection \<open>What an update writes\<close>

text \<open>The document \<open>updateTokenSocialScore\<close> writes over the document \<open>d\<close>.\<close>

text \<open>
  Line 148 in the arithmetic of the code: both products and the sum are rounded to the
  nearest double, then \<open>Math.round\<close> is taken.
\<close>

definition fusedScore :: "real \<Rightarrow> number \<Rightarrow> number" where
  "fusedScore onChainScore sc =
     Math_round (jsadd (jsmul (Num onChainScore) (lit 0.6)) (jsmul sc (lit 0.4)))"

definition updatedDoc :: "tokenData \<Rightarrow> number \<Rightarrow> analyzedToken \<Rightarrow> int \<Rightarrow> tokenData" where
  "updatedDoc d sc an now = d
     \<lparr>socialScore := JSON_number sc,
      finalScore := JSON_number (fusedScore (num_or (trendingscore d) 0) sc),
      socialAnalysis := Some
        \<lparr>sa_sentiment = sentiment an,
         sa_sentimentScore = JSON_field (sentimentScore an),
         sa_mentionCount = JSON_field (mentionCount an),
         sa_riskLevel = riskLevel an,
         sa_recommendation = recommendation an,
         sa_confidence = JSON_field (confidence an),
         sa_lastUpdated = now\<rparr>\<rparr>"

text \<open>The document a refresh cycle writes for the ranked token \<open>t\<close> over the document \<open>d\<close>.\<close>

definition refreshedDoc ::
  "lower \<Rightarrow> (string \<rightharpoonup> analyzedToken) \<Rightarrow> int \<Rightarrow> rankedToken \<Rightarrow> tokenData
     \<Rightarrow> tokenData" where
  "refreshedDoc toLowerCase analysisMap now t d =
     updatedDoc d (tokenSocialScore toLowerCase analysisMap t)
       (tokenFinalAnalysis toLowerCase analysisMap t) now"

text \<open>
  The value under the key \<open>k\<close> after a cycle over the tokens \<open>ts\<close>, from the value \<open>v\<close>
  before it: a document whose address is in \<open>ts\<close> is rewritten, everything else stays.
\<close>

definition refreshStored ::
  "lower \<Rightarrow> (string \<rightharpoonup> analyzedToken) \<Rightarrow> int \<Rightarrow> rankedToken list \<Rightarrow> string
     \<Rightarrow> stored option \<Rightarrow> stored option" where
  "refreshStored toLowerCase analysisMap now ts k v =
     (case find (\<lambda>t. r_address t = k) ts of
        None \<Rightarrow> v
      | Some t \<Rightarrow>
          (case v of
             Some (Doc d) \<Rightarrow> Some (Doc (refreshedDoc toLowerCase analysisMap now t d))
           | _ \<Rightarrow> v))"

text \<open>The time of the last social refresh of a document, if there was one.\<close>

definition socialLastUpdated :: "tokenData \<Rightarrow> int option" where
  "socialLastUpdated d = map_option sa_lastUpdated (socialAnalysis d)"

subsection \<open>Example data\<close>

definition mkDoc :: "string \<Rightarrow> string \<Rightarrow> real option \<Rightarrow> real option \<Rightarrow> tokenData" where
  "mkDoc a sy onChain final =
     \<lparr>address = a, name = None, symbol = Some sy, trendingscore = onChain,
      socialScore = None, finalScore = final, socialAnalysis = None\<rparr>"

definition mkState :: "(string \<times> stored) list \<Rightarrow> bool \<Rightarrow> rankedToken list \<Rightarrow> int \<Rightarrow> state" where
  "mkState al up cache stamp =
     \<lparr>client = \<lparr>db = al, reachable = up, writes = []\<rparr>,
      cachedRankings = cache, lastRankingUpdate = stamp\<rparr>"

text \<open>Final scores 50, 80, 80; the tied pair is enumerated B before A, or A before B.\<close>

definition store_C_B_A :: "(string \<times> stored) list" where
  "store_C_B_A =
     [(''0xC'', Doc (mkDoc ''0xC'' ''CCC'' (Some 50) (Some 50))),
      (''0xB'', Doc (mkDoc ''0xB'' ''BBB'' (Some 80) (Some 80))),
      (''0xA'', Doc (mkDoc ''0xA'' ''AAA'' (Some 80) (Some 80)))]"

definition store_C_A_B :: "(string \<times> stored) list" where
  "store_C_A_B =
     [(''0xC'', Doc (mkDoc ''0xC'' ''CCC'' (Some 50) (Some 50))),
      (''0xA'', Doc (mkDoc ''0xA'' ''AAA'' (Some 80) (Some 80))),
      (''0xB'', Doc (mkDoc ''0xB'' ''BBB'' (Some 80) (Some 80)))]"

text \<open>A record without a final score, one with the final score 0, one with 55.\<close>

definition store_unfused :: "(string \<times> stored) list" where
  "store_unfused =
     [(''0xA'', Doc (mkDoc ''0xA'' ''AAA'' (Some 40) None)),
      (''0xB'', Doc (mkDoc ''0xB'' ''BBB'' (Some 70) (Some 0))),
      (''0xC'', Doc (mkDoc ''0xC'' ''CCC'' (Some 10) (Some 55)))]"

text \<open>The record of the spec's scenarios 1 and 2: on-chain score 66, no social score yet.\<close>

definition store_66 :: "(string \<times> stored) list" where
  "store_66 = [(''0xA'', Doc (mkDoc ''0xA'' ''AAA'' (Some 66) (Some 66)))]"

text \<open>A record that was socially refreshed at time 1000 with the social score 90.\<close>

definition doc_refreshed :: tokenData where
  "doc_refreshed = (mkDoc ''0xA'' ''AAA'' (Some 66) (Some 76))
     \<lparr>socialScore := Some 90,
      socialAnalysis := Some
        \<lparr>sa_sentiment = ''bullish'', sa_sentimentScore = Some 1, sa_mentionCount = Some 40,
         sa_riskLevel = Some ''low'', sa_recommendation = ''buy'', sa_confidence = Some 1,
         sa_lastUpdated = 1000\<rparr>\<rparr>"

definition bullish :: "string \<Rightarrow> analyzedToken" where
  "bullish tk =
     \<lparr>tokenName = tk, ticker = Some tk, sentiment = ''bullish'',
      sentimentScore = Some (Num 1), trendingScore = Some (Num 100), signals = [],
      riskLevel = Some ''low'', mentionCount = Some (Num 40),
      avgEngagement = Some (Num 500), keyPhrases = [],
      recommendation = ''buy'', confidence = Some (Num 1), reasoning = []\<rparr>"

text \<open>
  An analysis with the trending score 2, one mention, the average engagement 80 and the
  given risk label; and one that has a trending score of 100 and nothing else.
\<close>

definition quiet :: "string \<Rightarrow> analyzedToken" where
  "quiet label =
     \<lparr>tokenName = ''AAA'', ticker = Some ''AAA'', sentiment = ''neutral'',
      sentimentScore = Some (Num 0), trendingScore = Some (Num 2), signals = [],
      riskLevel = Some label, mentionCount = Some (Num 1),
      avgEngagement = Some (Num 80), keyPhrases = [],
      recommendation = ''hold'', confidence = Some (Num 0), reasoning = []\<rparr>"

definition bare :: analyzedToken where
  "bare =
     \<lparr>tokenName = ''AAA'', ticker = None, sentiment = ''neutral'',
      sentimentScore = None, trendingScore = Some (Num 100), signals = [],
      riskLevel = None, mentionCount = None, avgEngagement = None, keyPhrases = [],
      recommendation = ''hold'', confidence = None, reasoning = []\<rparr>"

text \<open>A record with the on-chain score 28.5, and one with 42.49999999999999 (a double).\<close>

definition store_28 :: "(string \<times> stored) list" where
  "store_28 = [(''0xA'', Doc (mkDoc ''0xA'' ''AAA'' (Some (57 / 2)) (Some (57 / 2))))]"

definition store_42 :: "(string \<times> stored) list" where
  "store_42 =
     [(''0xA'', Doc (mkDoc ''0xA'' ''AAA'' (Some (5981343255101439 / 140737488355328))
         (Some (5981343255101439 / 140737488355328))))]"

text \<open>
  Lower-casing of the ASCII letters: what \<open>toLowerCase\<close> does on a string of ASCII
  characters, as all strings of the examples are.
\<close>

definition lower_char :: "char \<Rightarrow> char" where
  "lower_char c =
     (case map_of (zip ''ABCDEFGHIJKLMNOPQRSTUVWXYZ'' ''abcdefghijklmnopqrstuvwxyz'') c of
        None \<Rightarrow> c | Some d \<Rightarrow> d)"

definition toLowerCase_ascii :: lower where
  "toLowerCase_ascii s = map lower_char s"

text \<open>An aggregation that finds nothing, and one that finds the ticker AAA.\<close>

definition no_social :: social where
  "no_social tickers = Inr []"

definition aaa_social :: social where
  "aaa_social tickers = Inr [bullish ''AAA'']"

section \<open>Auxiliary facts\<close>

subsection \<open>Rounding to a double\<close>

lemma pow2_powr: "pow2 e = 2 powr (of_int e)"
  by (auto simp: pow2_def powr_realpow [symmetric] powr_minus divide_simps)

lemma pow2_pos: "0 < pow2 e"
  by (simp add: pow2_powr)

lemma pow2_add: "pow2 (a + b) = pow2 a * pow2 b"
  by (simp add: pow2_powr powr_add)

lemma pow2_mono: "a \<le> b \<Longrightarrow> pow2 a \<le> pow2 b"
  by (simp add: pow2_powr)

lemma pow2_less: "a < b \<Longrightarrow> pow2 a < pow2 b"
  by (simp add: pow2_powr)

lemma expo_unique:
  assumes lo: "pow2 k \<le> x" and hi: "x < pow2 (k + 1)"
  shows "expo x = k"
proof (cases "1 \<le> x")
  case True
  have kpos: "0 \<le> k"
  proof (rule ccontr)
    assume "\<not> 0 \<le> k"
    then have "k + 1 \<le> 0" by simp
    then have "pow2 (k + 1) \<le> pow2 0" by (rule pow2_mono)
    with hi True show False by (simp add: pow2_def)
  qed
  let ?n = "\<lfloor>x\<rfloor>"
  have npos: "0 < ?n" using True by simp
  have "real_of_int (2 ^ nat k) \<le> x" using lo kpos by (simp add: pow2_def)
  then have lo': "2 ^ nat k \<le> ?n" by (simp only: le_floor_iff)
  have "x < real_of_int (2 ^ nat (k + 1))" using hi kpos by (simp add: pow2_def)
  then have hi': "?n < 2 ^ nat (k + 1)" by (simp only: floor_less_iff)
  have a: "2 powr real_of_int k = real_of_int (2 ^ nat k)"
    using kpos by (simp add: powr_realpow [symmetric])
  have b: "2 powr real_of_int (k + 1) = real_of_int (2 ^ nat (k + 1))"
    using kpos by (simp add: powr_realpow [symmetric] nat_add_distrib powr_add)
  have "2 powr real_of_int k \<le> real_of_int ?n \<and> real_of_int ?n < 2 powr real_of_int (k + 1)"
    unfolding a b using lo' hi' by (simp only: of_int_le_iff of_int_less_iff)
  moreover have "0 < real_of_int ?n" using npos by simp
  ultimately have "\<lfloor>log 2 (real_of_int ?n)\<rfloor> = k"
    using floor_log_eq_powr_iff [of "real_of_int ?n" 2 k] by simp
  then have "bitlen ?n = k + 1" using npos by (simp add: bitlen_alt_def)
  then show ?thesis using True by (simp add: expo_def)
next
  case False
  have xpos: "0 < x" using lo pow2_pos [of k] by linarith
  have kneg: "k < 0"
  proof (rule ccontr)
    assume "\<not> k < 0"
    then have "pow2 0 \<le> pow2 k" by (intro pow2_mono) simp
    with lo False show False by (simp add: pow2_def)
  qed
  define j where "j = nat (- k)"
  have j: "1 \<le> j" "k = - int j" using kneg by (simp_all add: j_def)
  let ?c = "\<lceil>1 / x\<rceil>"
  have pk: "pow2 k = 1 / 2 ^ j" using kneg by (simp add: pow2_def j_def)
  have p1: "pow2 1 = 2" by (simp add: pow2_def)
  have split: "(2::real) ^ j = 2 * 2 ^ (j - 1)" using j(1) by (cases j) simp_all
  have "pow2 (k + 1) = pow2 k * 2" by (simp only: pow2_add p1)
  then have pk1: "pow2 (k + 1) = 1 / 2 ^ (j - 1)" by (simp add: pk split)
  from lo have "1 / 2 ^ j \<le> x" by (simp only: pk)
  then have "1 / x \<le> 2 ^ j" using xpos by (simp add: field_simps)
  then have "1 / x \<le> real_of_int (2 ^ j)" by simp
  then have chi: "?c \<le> 2 ^ j" by (simp only: ceiling_le_iff)
  from hi have "x < 1 / 2 ^ (j - 1)" by (simp only: pk1)
  then have "2 ^ (j - 1) < 1 / x" using xpos by (simp add: field_simps)
  then have "real_of_int (2 ^ (j - 1)) < 1 / x" by simp
  then have clo: "2 ^ (j - 1) < ?c" by (simp only: less_ceiling_iff)
  have "(1::int) \<le> 2 ^ (j - 1)" by simp
  with clo have mpos: "0 < ?c - 1" by linarith
  have a: "2 powr real_of_int (int j - 1) = real_of_int (2 ^ (j - 1))"
    using j by (simp add: powr_realpow [symmetric] of_nat_diff)
  have b: "2 powr real_of_int (int j - 1 + 1) = real_of_int (2 ^ j)"
    by (simp add: powr_realpow [symmetric])
  have "2 ^ (j - 1) \<le> ?c - 1" "?c - 1 < 2 ^ j" using clo chi by linarith+
  then have "2 powr real_of_int (int j - 1) \<le> real_of_int (?c - 1)
        \<and> real_of_int (?c - 1) < 2 powr real_of_int (int j - 1 + 1)"
    unfolding a b by (simp only: of_int_le_iff of_int_less_iff)
  moreover have "0 < real_of_int (?c - 1)" using mpos by linarith
  ultimately have "\<lfloor>log 2 (real_of_int (?c - 1))\<rfloor> = int j - 1"
    using floor_log_eq_powr_iff [of "real_of_int (?c - 1)" 2 "int j - 1"] by simp
  then have "bitlen (?c - 1) = int j" using mpos by (simp add: bitlen_alt_def)
  then show ?thesis using False j by (simp add: expo_def)
qed

lemma rne_bounds: "\<bar>of_int (rne y) - y\<bar> \<le> 1 / 2"
  unfolding rne_def Let_def by (auto; linarith)

lemma fl_normal:
  assumes lo: "pow2 (e + 52) \<le> \<bar>x\<bar>" and hi: "\<bar>x\<bar> < pow2 (e + 53)"
    and emin: "- 1074 \<le> e" and emax: "e \<le> 970"
    and r: "r = of_int (rne (x / pow2 e)) * pow2 e"
  shows "fl x = Num r"
proof -
  have x0: "x \<noteq> 0" using lo pow2_pos [of "e + 52"] by auto
  have p53: "pow2 53 = 2 ^ 53" by (simp add: pow2_def)
  have "expo \<bar>x\<bar> = e + 52"
  proof (rule expo_unique)
    show "pow2 (e + 52) \<le> \<bar>x\<bar>" by (rule lo)
    show "\<bar>x\<bar> < pow2 (e + 52 + 1)" using hi by (simp add: add.assoc)
  qed
  then have e0: "max (expo \<bar>x\<bar> - 52) (- 1074) = e" using emin by simp
  have "\<bar>x / pow2 e\<bar> < 2 ^ 53"
  proof -
    have "pow2 (e + 53) = pow2 e * 2 ^ 53" by (simp only: pow2_add p53)
    with hi pow2_pos [of e] show ?thesis by (simp add: field_simps)
  qed
  with rne_bounds [of "x / pow2 e"] have "\<bar>real_of_int (rne (x / pow2 e))\<bar> < 2 ^ 53 + 1"
    by linarith
  then have "real_of_int \<bar>rne (x / pow2 e)\<bar> < real_of_int (2 ^ 53 + 1)"
    by simp
  then have "\<bar>rne (x / pow2 e)\<bar> < 2 ^ 53 + 1"
    by (simp only: of_int_less_iff)
  then have "\<bar>rne (x / pow2 e)\<bar> \<le> 2 ^ 53" by linarith
  then have "real_of_int \<bar>rne (x / pow2 e)\<bar> \<le> real_of_int (2 ^ 53)"
    by (simp only: of_int_le_iff)
  then have m: "\<bar>real_of_int (rne (x / pow2 e))\<bar> \<le> 2 ^ 53" by simp
  have "\<bar>r\<bar> = \<bar>real_of_int (rne (x / pow2 e))\<bar> * pow2 e"
    unfolding r using pow2_pos [of e] by (simp add: abs_mult)
  also have "\<dots> \<le> 2 ^ 53 * pow2 e"
    using m pow2_pos [of e] by (simp add: mult_right_mono)
  also have "\<dots> = pow2 (e + 53)" by (simp only: pow2_add p53 mult.commute)
  also have "\<dots> \<le> pow2 1023" using emax by (intro pow2_mono) simp
  also have "\<dots> < pow2 1024" by (intro pow2_less) simp
  finally have small: "\<not> pow2 1024 \<le> \<bar>r\<bar>" by simp
  show ?thesis
    unfolding fl_def Let_def e0 using x0 small r by simp
qed

lemma fl_0: "fl 0 = Num 0"
  by (simp add: fl_def)

lemma jsmul_NaN_right: "jsmul a NaN = NaN"
  by (cases a) simp_all

lemma jsmul_commute: "jsmul a b = jsmul b a"
  by (cases a; cases b) (simp_all add: mult.commute)

subsection \<open>The doubles of the examples\<close>

text \<open>
  The values of \<open>fl\<close> at the exact sums, products and literals that the examples go
  through, each by \<open>fl_normal\<close> at the exponent of its argument.
\<close>

lemma double_1: "fl (1 / 10) = Num (3602879701896397 / 36028797018963968)"
  by (rule fl_normal [where e = "- 56"]) (simp_all add: pow2_def rne_def)

lemma double_2: "fl (3 / 20) = Num (5404319552844595 / 36028797018963968)"
  by (rule fl_normal [where e = "- 55"]) (simp_all add: pow2_def rne_def)

lemma double_3: "fl (1 / 5) = Num (3602879701896397 / 18014398509481984)"
  by (rule fl_normal [where e = "- 55"]) (simp_all add: pow2_def rne_def)

lemma double_4: "fl (3602879701896397 / 18014398509481984) = Num (3602879701896397 / 18014398509481984)"
  by (rule fl_normal [where e = "- 55"]) (simp_all add: pow2_def rne_def)

lemma double_5: "fl (1 / 4) = Num (1 / 4)"
  by (rule fl_normal [where e = "- 54"]) (simp_all add: pow2_def rne_def)

lemma double_6: "fl (3 / 10) = Num (5404319552844595 / 18014398509481984)"
  by (rule fl_normal [where e = "- 54"]) (simp_all add: pow2_def rne_def)

lemma double_7: "fl (2 / 5) = Num (3602879701896397 / 9007199254740992)"
  by (rule fl_normal [where e = "- 54"]) (simp_all add: pow2_def rne_def)

lemma double_8: "fl (3602879701896397 / 9007199254740992) = Num (3602879701896397 / 9007199254740992)"
  by (rule fl_normal [where e = "- 54"]) (simp_all add: pow2_def rne_def)

lemma double_9: "fl (1 / 2) = Num (1 / 2)"
  by (rule fl_normal [where e = "- 53"]) (simp_all add: pow2_def rne_def)

lemma double_10: "fl (5404319552844595 / 9007199254740992) = Num (5404319552844595 / 9007199254740992)"
  by (rule fl_normal [where e = "- 53"]) (simp_all add: pow2_def rne_def)

lemma double_11: "fl (3 / 5) = Num (5404319552844595 / 9007199254740992)"
  by (rule fl_normal [where e = "- 53"]) (simp_all add: pow2_def rne_def)

lemma double_12: "fl (4 / 5) = Num (3602879701896397 / 4503599627370496)"
  by (rule fl_normal [where e = "- 53"]) (simp_all add: pow2_def rne_def)

lemma double_13: "fl (1) = Num (1)"
  by (rule fl_normal [where e = "- 52"]) (simp_all add: pow2_def rne_def)

lemma double_14: "fl (5404319552844595 / 4503599627370496) = Num (5404319552844595 / 4503599627370496)"
  by (rule fl_normal [where e = "- 52"]) (simp_all add: pow2_def rne_def)

lemma double_15: "fl (8) = Num (8)"
  by (rule fl_normal [where e = "- 49"]) (simp_all add: pow2_def rne_def)

lemma double_16: "fl (29409493925294920144398677390131 / 2535301200456458802993406410752) = Num (6530219459687219 / 562949953421312)"
  by (rule fl_normal [where e = "- 49"]) (simp_all add: pow2_def rne_def)

lemma double_17: "fl (54043195528445955 / 4503599627370496) = Num (12)"
  by (rule fl_normal [where e = "- 49"]) (simp_all add: pow2_def rne_def)

lemma double_18: "fl (25 / 2) = Num (25 / 2)"
  by (rule fl_normal [where e = "- 49"]) (simp_all add: pow2_def rne_def)

lemma double_19: "fl (117994310237106995 / 9007199254740992) = Num (7374644389819187 / 562949953421312)"
  by (rule fl_normal [where e = "- 49"]) (simp_all add: pow2_def rne_def)

lemma double_20: "fl (239591500176110381 / 18014398509481984) = Num (7487234380503449 / 562949953421312)"
  by (rule fl_normal [where e = "- 49"]) (simp_all add: pow2_def rne_def)

lemma double_21: "fl (8162774324609023 / 562949953421312) = Num (8162774324609023 / 562949953421312)"
  by (rule fl_normal [where e = "- 49"]) (simp_all add: pow2_def rne_def)

lemma double_22: "fl (65302194596872187 / 4503599627370496) = Num (8162774324609023 / 562949953421312)"
  by (rule fl_normal [where e = "- 49"]) (simp_all add: pow2_def rne_def)

lemma double_23: "fl (308046214512141915 / 18014398509481984) = Num (4813222101752217 / 281474976710656)"
  by (rule fl_normal [where e = "- 48"]) (simp_all add: pow2_def rne_def)

lemma double_24: "fl (157625986957967341 / 9007199254740992) = Num (4925812092436479 / 281474976710656)"
  by (rule fl_normal [where e = "- 48"]) (simp_all add: pow2_def rne_def)

lemma double_25: "fl (32325090305819843137577727872205 / 1267650600228229401496703205376) = Num (7177611906121727 / 281474976710656)"
  by (rule fl_normal [where e = "- 48"]) (simp_all add: pow2_def rne_def)

lemma double_26: "fl (135107988821114875 / 4503599627370496) = Num (30)"
  by (rule fl_normal [where e = "- 48"]) (simp_all add: pow2_def rne_def)

lemma double_27: "fl (306244774661193745 / 9007199254740992) = Num (34)"
  by (rule fl_normal [where e = "- 47"]) (simp_all add: pow2_def rne_def)

lemma double_28: "fl (162129586585337865 / 4503599627370496) = Num (36)"
  by (rule fl_normal [where e = "- 47"]) (simp_all add: pow2_def rne_def)

lemma double_29: "fl (10555311626649599 / 281474976710656) = Num (75 / 2)"
  by (rule fl_normal [where e = "- 47"]) (simp_all add: pow2_def rne_def)

lemma double_30: "fl (178342545243871635 / 4503599627370496) = Num (5573204538870989 / 140737488355328)"
  by (rule fl_normal [where e = "- 47"]) (simp_all add: pow2_def rne_def)

lemma double_31: "fl (85 / 2) = Num (85 / 2)"
  by (rule fl_normal [where e = "- 47"]) (simp_all add: pow2_def rne_def)

lemma double_32: "fl (50) = Num (50)"
  by (rule fl_normal [where e = "- 47"]) (simp_all add: pow2_def rne_def)

lemma double_33: "fl (7262054399134925 / 140737488355328) = Num (7262054399134925 / 140737488355328)"
  by (rule fl_normal [where e = "- 47"]) (simp_all add: pow2_def rne_def)

lemma double_34: "fl (10639754119662797 / 140737488355328) = Num (2659938529915699 / 35184372088832)"
  by (rule fl_normal [where e = "- 46"]) (simp_all add: pow2_def rne_def)


lemmas fl_values =
  fl_0 double_1 double_2 double_3 double_4 double_5 double_6
  double_7 double_8 double_9 double_10 double_11 double_12
  double_13 double_14 double_15 double_16 double_17 double_18
  double_19 double_20 double_21 double_22 double_23 double_24
  double_25 double_26 double_27 double_28 double_29 double_30
  double_31 double_32 double_33 double_34

subsection \<open>Reading the ranking\<close>

lemmas read_defs =
  getTokenAddressesSorted_def catching_def getTokenAddressesSorted_body_def
  client_keys_def client_mGet_def Let_def

lemmas eval_defs =
  JSON_parse_def toRanked_def sortDesc_def matches_0x_def num_or_def str_or_def s_or_def
  RANKING_CACHE_TTL_def mkDoc_def mkState_def

lemma sortDesc_Nil: "sortDesc [] = []"
  by (simp add: sortDesc_def)

lemma read_cached:
  "cachedRankings s \<noteq> [] \<Longrightarrow> now - lastRankingUpdate s < RANKING_CACHE_TTL \<Longrightarrow>
   getTokenAddressesSorted now s = (Inr (cachedRankings s), s)"
  by (simp add: read_defs)

lemma read_rebuild_result:
  assumes "reachable (client s)"
    and "cachedRankings s = [] \<or> RANKING_CACHE_TTL \<le> now - lastRankingUpdate s"
  shows "fst (getTokenAddressesSorted now s) = Inr (storeRanking (client s))"
  using assms
  by (auto simp: read_defs storeRanking_def scanStore_def sortDesc_Nil split: sum.splits)

lemma read_rebuild_full:
  assumes "reachable (client s)"
    and "cachedRankings s = [] \<or> RANKING_CACHE_TTL \<le> now - lastRankingUpdate s"
    and "filter matches_0x (map fst (db (client s))) \<noteq> []"
    and "scanStore (client s) = Inr docs"
  shows "getTokenAddressesSorted now s =
     (Inr (sortDesc (map toRanked docs)),
      s\<lparr>cachedRankings := sortDesc (map toRanked docs), lastRankingUpdate := now\<rparr>)"
  using assms by (auto simp: read_defs scanStore_def)

lemma read_unreachable:
  assumes "\<not> reachable (client s)"
    and "cachedRankings s = [] \<or> RANKING_CACHE_TTL \<le> now - lastRankingUpdate s"
  shows "getTokenAddressesSorted now s = (Inr [], s)"
  using assms by (auto simp: read_defs)

lemma read_client: "client (snd (getTokenAddressesSorted now s)) = client s"
  by (auto simp: read_defs split: sum.splits)

subsection \<open>The documents of a store with distinct keys\<close>

lemma map_of_keys_distinct:
  "distinct (map fst al) \<Longrightarrow>
   map (map_of al) (filter P (map fst al)) = map (Some \<circ> snd) (filter (P \<circ> fst) al)"
proof (induction al)
  case Nil
  then show ?case by simp
next
  case (Cons x al)
  obtain k v where x: "x = (k, v)" by (cases x)
  from Cons.prems have notin: "k \<notin> set (map fst al)" and dist: "distinct (map fst al)"
    by (simp_all add: x)
  have eq: "map (map_of ((k, v) # al)) (filter P (map fst al)) =
      map (map_of al) (filter P (map fst al))"
    using notin by (intro map_cong) auto
  have hd: "map_of ((k, v) # al) k = Some v" by simp
  show ?case
    unfolding x using Cons.IH [OF dist] eq hd by (simp del: map_of.simps fun_upd_apply)
qed

lemma parseValues_docs:
  "parsable al \<Longrightarrow>
   parseValues (map (Some \<circ> snd) (filter (matches_0x \<circ> fst) al)) = Inr (docsOf al)"
  by (induction al) (auto simp: parsable_def JSON_parse_def split: stored.splits)

lemma scanStore_docs:
  "distinct (map fst (db c)) \<Longrightarrow> parsable (db c) \<Longrightarrow> scanStore c = Inr (docsOf (db c))"
  by (simp add: scanStore_def map_of_keys_distinct parseValues_docs)

lemma storeRanking_docs:
  "distinct (map fst (db c)) \<Longrightarrow> parsable (db c) \<Longrightarrow>
   storeRanking c = sortDesc (map toRanked (docsOf (db c)))"
  by (simp add: storeRanking_def scanStore_docs)

lemma docsOf_complete: "(k, Doc d) \<in> set al \<Longrightarrow> matches_0x k \<Longrightarrow> d \<in> set (docsOf al)"
  by (induction al rule: docsOf.induct) (auto split: stored.splits)

lemma docsOf_sound: "d \<in> set (docsOf al) \<Longrightarrow> \<exists>k. (k, Doc d) \<in> set al \<and> matches_0x k"
  by (induction al rule: docsOf.induct) (auto split: stored.splits if_splits)

subsection \<open>The sort of line 123\<close>

lemma sortDesc_sorted: "sorted_wrt (\<lambda>a b. r_finalScore b \<le> r_finalScore a) (sortDesc xs)"
proof -
  have "sorted (map (\<lambda>t. - r_finalScore t) (sortDesc xs))"
    unfolding sortDesc_def by (rule sorted_sort_key)
  then show ?thesis
    by (simp add: sorted_wrt_map)
qed

lemma sortDesc_stable:
  "filter (\<lambda>t. r_finalScore t = k) (sortDesc xs) = filter (\<lambda>t. r_finalScore t = k) xs"
  using sort_key_stable [of "\<lambda>t. - r_finalScore t" "- k" xs]
  by (simp add: sortDesc_def)

lemma sortDesc_mset: "mset (sortDesc xs) = mset xs"
  by (simp add: sortDesc_def)

subsection \<open>One update\<close>

lemmas update_defs =
  updateTokenSocialScore_def updateTokenSocialScore_body_def client_get_def client_set_def

lemma update_no_record:
  assumes "map_of (db (client s)) a = None"
  shows "updateTokenSocialScore a sc an now s = (Inr (), s)"
  using assms by (simp add: update_defs catching_def)

lemma update_success:
  assumes "reachable (client s)" and "map_of (db (client s)) a = Some (Doc d)"
  shows "updateTokenSocialScore a sc an now s =
    (Inr (),
     s\<lparr>client := (client s)
         \<lparr>db := AList.update a (Doc (updatedDoc d sc an now)) (db (client s)),
          writes := writes (client s) @ [(a, Doc (updatedDoc d sc an now))]\<rparr>,
       cachedRankings := []\<rparr>)"
  using assms
  by (simp add: update_defs catching_def JSON_parse_def Let_def updatedDoc_def fusedScore_def)

lemma update_other:
  assumes "\<not> reachable (client s) \<or> (\<forall>d. map_of (db (client s)) a \<noteq> Some (Doc d))"
  shows "updateTokenSocialScore a sc an now s = (Inr (), s)"
  using assms
  by (auto simp: update_defs catching_def JSON_parse_def Let_def
      split: option.splits stored.splits)

subsection \<open>A refresh cycle\<close>

lemma refreshToken_effect:
  assumes "reachable (client s)"
  shows "\<exists>s'. refreshToken lc analysisMap now t s = (Inr (), s') \<and> reachable (client s') \<and>
     (\<forall>k. map_of (db (client s')) k =
        refreshStored lc analysisMap now [t] k (map_of (db (client s)) k))"
proof (cases "\<exists>d. map_of (db (client s)) (r_address t) = Some (Doc d)")
  case True
  then obtain d where d: "map_of (db (client s)) (r_address t) = Some (Doc d)" by blast
  show ?thesis
    unfolding refreshToken_def update_success [OF assms d]
    using assms d by (auto simp: refreshStored_def refreshedDoc_def update_conv')
next
  case False
  then have "updateTokenSocialScore (r_address t) sc an now s = (Inr (), s)" for sc an
    by (intro update_other) simp
  then show ?thesis
    unfolding refreshToken_def using assms False
    by (auto simp: refreshStored_def split: option.splits stored.splits)
qed

lemma refreshStored_Cons:
  assumes "r_address t \<notin> r_address ` set ts"
  shows "refreshStored lc m now ts k (refreshStored lc m now [t] k v) = refreshStored lc m now (t # ts) k v"
proof (cases "r_address t = k")
  case True
  have "r_address x \<noteq> k" if "x \<in> set ts" for x
    using assms True that by (metis imageI)
  then have "find (\<lambda>x. r_address x = k) ts = None"
    by (simp add: find_None_iff)
  with True show ?thesis by (simp add: refreshStored_def)
next
  case False
  then show ?thesis by (simp add: refreshStored_def)
qed

lemma refreshAll_effect:
  assumes "reachable (client s)" and "distinct (map r_address ts)"
  shows "\<exists>s'. refreshAll lc analysisMap now ts s = (Inr (), s') \<and> reachable (client s') \<and>
     (\<forall>k. map_of (db (client s')) k =
        refreshStored lc analysisMap now ts k (map_of (db (client s)) k))"
  using assms
proof (induction ts arbitrary: s)
  case Nil
  then show ?case by (simp add: refreshStored_def)
next
  case (Cons t ts)
  from refreshToken_effect [OF Cons.prems(1)]
  obtain s1 where s1: "refreshToken lc analysisMap now t s = (Inr (), s1)"
    and r1: "reachable (client s1)"
    and l1: "\<And>k. map_of (db (client s1)) k =
        refreshStored lc analysisMap now [t] k (map_of (db (client s)) k)"
    by blast
  from Cons.prems(2) have notin: "r_address t \<notin> r_address ` set ts"
    and dist: "distinct (map r_address ts)" by simp_all
  from Cons.IH [OF r1 dist]
  obtain s' where s': "refreshAll lc analysisMap now ts s1 = (Inr (), s')"
    and r': "reachable (client s')"
    and l': "\<And>k. map_of (db (client s')) k =
        refreshStored lc analysisMap now ts k (map_of (db (client s1)) k)"
    by blast
  have "refreshAll lc analysisMap now (t # ts) s = (Inr (), s')"
    by (simp add: s1 s')
  moreover have "map_of (db (client s')) k =
      refreshStored lc analysisMap now (t # ts) k (map_of (db (client s)) k)" for k
    by (simp only: l' l1 refreshStored_Cons [OF notin])
  ultimately show ?case using r' by blast
qed

lemma cycle_effect:
  assumes reach: "reachable (client s)"
    and read: "fst (getTokenAddressesSorted now s) = Inr ranking"
    and dist: "distinct (map r_address (slice startRank endRank ranking))"
    and tick: "filter (\<lambda>t. t \<noteq> []) (map tickerOf (slice startRank endRank ranking)) \<noteq> []"
    and soc: "social (filter (\<lambda>t. t \<noteq> []) (map tickerOf (slice startRank endRank ranking)))
       = Inr topTrending"
  shows "\<exists>s'. updateTokensByRankRange lc social startRank endRank now s = (Inr (), s') \<and>
     (\<forall>k. map_of (db (client s')) k =
        refreshStored lc (buildAnalysisMap lc topTrending) now (slice startRank endRank ranking) k
          (map_of (db (client s)) k))"
proof -
  obtain s1 where read': "getTokenAddressesSorted now s = (Inr ranking, s1)"
    using read by (cases "getTokenAddressesSorted now s") simp
  have c1: "client s1 = client s"
    using read_client [of now s] read' by simp
  then have r1: "reachable (client s1)" using reach by simp
  from refreshAll_effect [OF r1 dist]
  obtain s' where s': "refreshAll lc (buildAnalysisMap lc topTrending) now
        (slice startRank endRank ranking) s1 = (Inr (), s')"
    and l': "\<And>k. map_of (db (client s')) k =
        refreshStored lc (buildAnalysisMap lc topTrending) now (slice startRank endRank ranking) k
          (map_of (db (client s1)) k)"
    by blast
  from tick have ne: "slice startRank endRank ranking \<noteq> []" by auto
  have "updateTokensByRankRange lc social startRank endRank now s = (Inr (), s')"
    unfolding updateTokensByRankRange_def catching_def updateTokensByRankRange_body_def
    using read' ne tick soc s' by (simp add: Let_def)
  then show ?thesis using l' c1 by auto
qed

lemma find_distinct:
  "distinct (map f xs) \<Longrightarrow> t \<in> set xs \<Longrightarrow> find (\<lambda>x. f x = f t) xs = Some t"
  by (induction xs) (auto simp: image_iff)

lemmas cycle_defs =
  updateTokensByRankRange_def updateTokensByRankRange_body_def slice_def tickerOf_def
  buildAnalysisMap_def refreshToken_def tokenSocialScore_def tokenFinalAnalysis_def
  tokenKey_def noMentions_def update_defs toLowerCase_ascii_def lower_char_def

section \<open>Properties\<close>

subsection \<open>The social sub-score\<close>

text \<open>
  C1, as the spec states it, fails. The spec gives the sub-score as the rounded value of
  the formula. The code computes the formula in doubles: for the trending score 2, one
  mention, the average engagement 80 and the label 'low' the formula is 14.5 and rounds to
  15, while the sum of line 90-96 is the double 14.499999999999998 and the code returns 14.
  And the label 'constructor' is not given the penalty 0.8: the object literal of line 83
  answers with an inherited member and the code returns \<open>NaN\<close>.
\<close>

theorem social_score_counterexample:
  "calculateSocialScore (quiet ''low'') = Num 14
   \<and> max 0 (min 100 (round ((1 :: real) * (2 * 0.3 + (0 + 1) * 50 * 0.25 + min 1 100 * 0.2
         + min (80 / 10) 100 * 0.15 + 0 * 100 * 0.1)))) = 15
   \<and> calculateSocialScore (quiet ''constructor'') = NaN"
  by (simp add: calculateSocialScore_def quiet_def dflt_def riskPenalty_of_def get_property_def
      riskPenalty_table_def Object_prototype_members_def lit_def fl_values round_def)

text \<open>
  C1, amended. For every social analysis input whose risk label is not the name of a
  member that object literals inherit, the computed social sub-score is
  clamp(0, 100, round(riskPenalty * (trendingScore*0.3 + (sentimentScore+1)*50*0.25
  + min(mentionCount,100)*0.2 + min(avgEngagement/10,100)*0.15 + confidence*100*0.1)))
  in double arithmetic: every literal is the nearest double, every sum, product and
  quotient is rounded to the nearest double, the sum is taken from left to right, and
  round is \<open>Math.round\<close>. riskPenalty is 1 for 'low', 0.8 for 'medium', 0.5 for 'high',
  0.2 for 'extreme' and 0.8 for every other such label. A numeric field the input leaves
  out reads as 0 and a missing label as 'medium'.
\<close>

theorem calculateSocialScore_doubles:
  fixes a :: analyzedToken
  defines "rl \<equiv> (case riskLevel a of None \<Rightarrow> ''medium'' | Some l \<Rightarrow> l)"
  defines "riskPenalty \<equiv>
     (if rl = ''low'' then Num 1 else if rl = ''medium'' then lit 0.8
      else if rl = ''high'' then lit 0.5 else if rl = ''extreme'' then lit 0.2 else lit 0.8)"
  defines "ts \<equiv> (case trendingScore a of None \<Rightarrow> Num 0 | Some x \<Rightarrow> x)"
  defines "ss \<equiv> (case sentimentScore a of None \<Rightarrow> Num 0 | Some x \<Rightarrow> x)"
  defines "mc \<equiv> (case mentionCount a of None \<Rightarrow> Num 0 | Some x \<Rightarrow> x)"
  defines "ae \<equiv> (case avgEngagement a of None \<Rightarrow> Num 0 | Some x \<Rightarrow> x)"
  defines "cf \<equiv> (case confidence a of None \<Rightarrow> Num 0 | Some x \<Rightarrow> x)"
  assumes label: "rl \<notin> set Object_prototype_members"
  shows "calculateSocialScore a =
     Math_max (Num 0) (Math_min (Num 100) (Math_round (jsmul riskPenalty
       (jsadd (jsadd (jsadd (jsadd
          (jsmul ts (lit 0.3))
          (jsmul (jsmul (jsadd ss (Num 1)) (Num 50)) (lit 0.25)))
          (jsmul (Math_min mc (Num 100)) (lit 0.2)))
          (jsmul (Math_min (jsdiv ae (Num 10)) (Num 100)) (lit 0.15)))
          (jsmul (jsmul cf (Num 100)) (lit 0.1))))))"
proof -
  have pen: "riskPenalty_of rl = riskPenalty"
    using label
    by (simp add: riskPenalty_of_def get_property_def riskPenalty_table_def riskPenalty_def
        lit_def fl_values)
  show ?thesis
    unfolding calculateSocialScore_def Let_def dflt_def
    unfolding rl_def [symmetric] ts_def [symmetric] ss_def [symmetric] mc_def [symmetric]
      ae_def [symmetric] cf_def [symmetric] pen
    by (rule arg_cong [where f = "\<lambda>x. Math_max (Num 0) (Math_min (Num 100) (Math_round x))"])
      (rule jsmul_commute)
qed

text \<open>
  With an unrecognised label the input of the counterexample scores 12 (the penalty 0.8);
  an input that has a trending score of 100 and nothing else scores 34 (the defaults 0 and
  'medium').
\<close>

theorem calculateSocialScore_doubles_witness:
  "(case riskLevel (quiet ''unknown'') of None \<Rightarrow> ''medium'' | Some l \<Rightarrow> l)
      \<notin> set Object_prototype_members
   \<and> calculateSocialScore (quiet ''unknown'') = Num 12
   \<and> (case riskLevel bare of None \<Rightarrow> ''medium'' | Some l \<Rightarrow> l)
      \<notin> set Object_prototype_members
   \<and> calculateSocialScore bare = Num 34"
proof -
  have h1: "(case riskLevel (quiet ''unknown'') of None \<Rightarrow> ''medium'' | Some l \<Rightarrow> l)
      \<notin> set Object_prototype_members"
    by (simp add: quiet_def Object_prototype_members_def)
  have h2: "(case riskLevel bare of None \<Rightarrow> ''medium'' | Some l \<Rightarrow> l)
      \<notin> set Object_prototype_members"
    by (simp add: bare_def Object_prototype_members_def)
  have v1: "calculateSocialScore (quiet ''unknown'') = Num 12"
    unfolding calculateSocialScore_doubles [OF h1]
    by (simp add: quiet_def lit_def fl_values)
  have v2: "calculateSocialScore bare = Num 34"
    unfolding calculateSocialScore_doubles [OF h2]
    by (simp add: bare_def lit_def fl_values)
  from h1 v1 h2 v2 show ?thesis by (intro conjI) assumption+
qed

subsection \<open>Score fusion on a social-score write\<close>

text \<open>
  C2, as the spec states it, fails. For a record with the on-chain score 28.5 that receives
  the social score 1 the rounded value of 28.5 * 0.6 + 1 * 0.4 = 17.5 is 18; line 148
  computes the sum in doubles, 17.499999999999996, and the update stores 17.
\<close>

theorem fusion_rounding_counterexample:
  "(\<exists>s' d'. updateTokenSocialScore ''0xA'' (Num 1) (bullish ''AAA'') 1000
        (mkState store_28 True [] 0) = (Inr (), s')
      \<and> map_of (db (client s')) ''0xA'' = Some (Doc d')
      \<and> finalScore d' = Some 17)
   \<and> round (57 / 2 * 0.6 + 1 * 0.4 :: real) = 18"
  by (simp add: update_defs catching_def JSON_parse_def eval_defs store_28_def lit_def
      fl_values round_def Let_def)

text \<open>
  C2, amended. For every stored record and every social-score write on a reachable store,
  the persisted finalScore is \<open>Math.round\<close> of onChainScore * 0.6 + socialScore * 0.4
  computed in doubles (0.6 and 0.4 are the nearest doubles, both products and the sum are
  rounded to the nearest double), and \<open>null\<close> when that is not a finite number; the
  on-chain score is the record's \<open>trendingscore\<close>, 0 when it is missing. A record whose
  on-chain score is 66 that receives the social score 90 gets the final score 76.
\<close>

theorem updateTokenSocialScore_fuses_doubles:
  assumes "reachable (client s)" and "map_of (db (client s)) a = Some (Doc d)"
  shows "\<exists>s' d'. updateTokenSocialScore a sc an now s = (Inr (), s')
      \<and> map_of (db (client s')) a = Some (Doc d')
      \<and> trendingscore d' = trendingscore d
      \<and> socialScore d' = JSON_number sc
      \<and> finalScore d' = JSON_number (Math_round
            (jsadd (jsmul (Num (num_or (trendingscore d) 0)) (lit 0.6)) (jsmul sc (lit 0.4))))
      \<and> (num_or (trendingscore d) 0 = 66 \<and> sc = Num 90 \<longrightarrow> finalScore d' = Some 76)"
proof -
  let ?d' = "updatedDoc d sc an now"
  let ?s' = "s\<lparr>client := (client s)
         \<lparr>db := AList.update a (Doc ?d') (db (client s)),
          writes := writes (client s) @ [(a, Doc ?d')]\<rparr>,
       cachedRankings := []\<rparr>"
  have run: "updateTokenSocialScore a sc an now s = (Inr (), ?s')"
    by (rule update_success [OF assms])
  have look: "map_of (db (client ?s')) a = Some (Doc ?d')"
    by (simp add: update_conv')
  have fin: "finalScore ?d' = JSON_number (Math_round
            (jsadd (jsmul (Num (num_or (trendingscore d) 0)) (lit 0.6)) (jsmul sc (lit 0.4))))"
    by (simp add: updatedDoc_def fusedScore_def)
  have ex: "finalScore ?d' = Some 76" if "num_or (trendingscore d) 0 = 66" and "sc = Num 90"
    using that by (simp add: updatedDoc_def fusedScore_def lit_def fl_values)
  have "trendingscore ?d' = trendingscore d" and "socialScore ?d' = JSON_number sc"
    by (simp_all add: updatedDoc_def)
  with run look fin ex show ?thesis
    by (intro exI [of _ ?s'] exI [of _ ?d'] conjI impI) (assumption | simp)+
qed

text \<open>The record of scenario 2: on-chain score 66, social score 90, final score 76.\<close>

theorem updateTokenSocialScore_fuses_doubles_witness:
  "reachable (client (mkState store_66 True [] 0))
   \<and> map_of (db (client (mkState store_66 True [] 0))) ''0xA''
       = Some (Doc (mkDoc ''0xA'' ''AAA'' (Some 66) (Some 66)))
   \<and> (\<exists>s' d'. updateTokenSocialScore ''0xA'' (Num 90) (bullish ''AAA'') 1000
         (mkState store_66 True [] 0) = (Inr (), s')
       \<and> map_of (db (client s')) ''0xA'' = Some (Doc d')
       \<and> socialScore d' = Some 90 \<and> finalScore d' = Some 76)"
proof -
  have h1: "reachable (client (mkState store_66 True [] 0))"
    by (simp add: mkState_def)
  have h2: "map_of (db (client (mkState store_66 True [] 0))) ''0xA''
       = Some (Doc (mkDoc ''0xA'' ''AAA'' (Some 66) (Some 66)))"
    by (simp add: mkState_def store_66_def)
  have on: "num_or (trendingscore (mkDoc ''0xA'' ''AAA'' (Some 66) (Some 66))) 0 = 66"
    by (simp add: mkDoc_def num_or_def)
  from updateTokenSocialScore_fuses_doubles [OF h1 h2, of "Num 90" "bullish ''AAA''" 1000]
  obtain s' d' where run: "updateTokenSocialScore ''0xA'' (Num 90) (bullish ''AAA'') 1000
         (mkState store_66 True [] 0) = (Inr (), s')"
    and look: "map_of (db (client s')) ''0xA'' = Some (Doc d')"
    and sc: "socialScore d' = JSON_number (Num 90)"
    and fin: "num_or (trendingscore (mkDoc ''0xA'' ''AAA'' (Some 66) (Some 66))) 0 = 66
        \<and> Num 90 = Num 90 \<longrightarrow> finalScore d' = Some 76"
    by blast
  from sc have sc': "socialScore d' = Some 90" by simp
  from fin on have fin': "finalScore d' = Some 76" by simp
  from h1 h2 run look sc' fin' show ?thesis
    by (intro conjI exI [of _ s'] exI [of _ d']) assumption+
qed

subsection \<open>One write, and the snapshot invalidated\<close>

text \<open>
  C3. Every successful social-score update writes socialScore and the recomputed
  finalScore in one single write: the update adds exactly one entry to the log of the
  writes of the store, the document with both values, so the store passes from its state
  before the update to its state after it without a state in between. The update leaves
  the cached snapshot empty, and the next ranked read, at whatever time, returns the
  ranking of the store.
\<close>

theorem updateTokenSocialScore_single_write:
  assumes "reachable (client s)" and "map_of (db (client s)) a = Some (Doc d)"
  shows "\<exists>s' d'. updateTokenSocialScore a sc an now s = (Inr (), s')
      \<and> socialScore d' = JSON_number sc
      \<and> finalScore d' = JSON_number (Math_round
            (jsadd (jsmul (Num (num_or (trendingscore d) 0)) (lit 0.6)) (jsmul sc (lit 0.4))))
      \<and> writes (client s') = writes (client s) @ [(a, Doc d')]
      \<and> db (client s') = AList.update a (Doc d') (db (client s))
      \<and> cachedRankings s' = []
      \<and> (\<forall>now'. fst (getTokenAddressesSorted now' s') = Inr (storeRanking (client s')))"
proof -
  let ?d' = "updatedDoc d sc an now"
  let ?s' = "s\<lparr>client := (client s)
         \<lparr>db := AList.update a (Doc ?d') (db (client s)),
          writes := writes (client s) @ [(a, Doc ?d')]\<rparr>,
       cachedRankings := []\<rparr>"
  have run: "updateTokenSocialScore a sc an now s = (Inr (), ?s')"
    by (rule update_success [OF assms])
  have wr: "writes (client ?s') = writes (client s) @ [(a, Doc ?d')]"
    and st: "db (client ?s') = AList.update a (Doc ?d') (db (client s))"
    and inv: "cachedRankings ?s' = []"
    by simp_all
  have reach: "reachable (client ?s')" using assms(1) by simp
  have next_read: "fst (getTokenAddressesSorted now' ?s') = Inr (storeRanking (client ?s'))"
    for now'
    by (rule read_rebuild_result [OF reach]) simp
  have "socialScore ?d' = JSON_number sc"
    and "finalScore ?d' = JSON_number (Math_round
            (jsadd (jsmul (Num (num_or (trendingscore d) 0)) (lit 0.6)) (jsmul sc (lit 0.4))))"
    by (simp_all add: updatedDoc_def fusedScore_def)
  with run wr st inv next_read show ?thesis
    by (intro exI [of _ ?s'] exI [of _ ?d'] conjI allI) (assumption | simp)+
qed

text \<open>
  A fresh snapshot ranks the record at 66; the update logs one write, the snapshot is gone
  and the next read ranks the record at 76.
\<close>

theorem updateTokenSocialScore_single_write_witness:
  "reachable (client (mkState store_66 True [toRanked (mkDoc ''0xA'' ''AAA'' (Some 66) (Some 66))] 0))
   \<and> map_of (db (client (mkState store_66 True [toRanked (mkDoc ''0xA'' ''AAA'' (Some 66) (Some 66))] 0))) ''0xA''
       = Some (Doc (mkDoc ''0xA'' ''AAA'' (Some 66) (Some 66)))
   \<and> (\<exists>s' d'. updateTokenSocialScore ''0xA'' (Num 90) (bullish ''AAA'') 1000
           (mkState store_66 True [toRanked (mkDoc ''0xA'' ''AAA'' (Some 66) (Some 66))] 0) = (Inr (), s')
       \<and> writes (client s') = [(''0xA'', Doc d')]
       \<and> socialScore d' = Some 90
       \<and> finalScore d' = Some 76
       \<and> cachedRankings s' = []
       \<and> map (\<lambda>t. (r_address t, r_finalScore t)) (storeRanking (client s')) = [(''0xA'', 76)]
       \<and> fst (getTokenAddressesSorted 1001 s') = Inr (storeRanking (client s')))"
proof -
  let ?s = "mkState store_66 True [toRanked (mkDoc ''0xA'' ''AAA'' (Some 66) (Some 66))] 0"
  have h1: "reachable (client ?s)"
    by (simp add: mkState_def)
  have h2: "map_of (db (client ?s)) ''0xA'' = Some (Doc (mkDoc ''0xA'' ''AAA'' (Some 66) (Some 66)))"
    by (simp add: mkState_def store_66_def)
  have w0: "writes (client ?s) = []" by (simp add: mkState_def)
  have v: "JSON_number (Math_round (jsadd
      (jsmul (Num (num_or (trendingscore (mkDoc ''0xA'' ''AAA'' (Some 66) (Some 66))) 0)) (lit 0.6))
      (jsmul (Num 90) (lit 0.4)))) = Some 76"
    by (simp add: mkDoc_def num_or_def lit_def fl_values)
  from updateTokenSocialScore_single_write [OF h1 h2, of "Num 90" "bullish ''AAA''" 1000]
  obtain s' d' where run: "updateTokenSocialScore ''0xA'' (Num 90) (bullish ''AAA'') 1000 ?s = (Inr (), s')"
    and sc: "socialScore d' = JSON_number (Num 90)"
    and fin: "finalScore d' = Some 76"
    and wr: "writes (client s') = writes (client ?s) @ [(''0xA'', Doc d')]"
    and inv: "cachedRankings s' = []"
    and rd: "\<And>now'. fst (getTokenAddressesSorted now' s') = Inr (storeRanking (client s'))"
    unfolding v by blast
  from sc have sc': "socialScore d' = Some 90" by simp
  from wr w0 have wr': "writes (client s') = [(''0xA'', Doc d')]" by simp
  have s': "s' = snd (updateTokenSocialScore ''0xA'' (Num 90) (bullish ''AAA'') 1000 ?s)"
    by (simp add: run)
  have rank: "map (\<lambda>t. (r_address t, r_finalScore t)) (storeRanking (client s')) = [(''0xA'', 76)]"
    unfolding s'
    by (simp add: update_defs catching_def storeRanking_def scanStore_def eval_defs store_66_def
        bullish_def lit_def fl_values Let_def)
  from h1 h2 run wr' sc' fin inv rank rd [of 1001] show ?thesis
    by (intro conjI exI [of _ s'] exI [of _ d']) assumption+
qed

subsection \<open>An update for an address without a record\<close>

text \<open>
  C9. A social-score update for an address that has no record in the store is a no-op:
  the whole state (the store and the cached snapshot with its time stamp) is returned as
  it was, and the call resolves instead of rejecting. This holds whether or not the store
  is reachable.
\<close>

theorem updateTokenSocialScore_absent_noop:
  assumes "map_of (db (client s)) a = None"
  shows "updateTokenSocialScore a sc an now s = (Inr (), s)"
  using assms by (rule update_no_record)

text \<open>No record under 0xZ: the store and the snapshot stay as they are.\<close>

theorem updateTokenSocialScore_absent_noop_witness:
  "map_of (db (client (mkState store_66 True [toRanked (mkDoc ''0xA'' ''AAA'' (Some 66) (Some 66))] 0))) ''0xZ'' = None
   \<and> updateTokenSocialScore ''0xZ'' (Num 90) (bullish ''ZZZ'') 1000
        (mkState store_66 True [toRanked (mkDoc ''0xA'' ''AAA'' (Some 66) (Some 66))] 0)
      = (Inr (), mkState store_66 True [toRanked (mkDoc ''0xA'' ''AAA'' (Some 66) (Some 66))] 0)"
proof -
  have h: "map_of (db (client (mkState store_66 True [toRanked (mkDoc ''0xA'' ''AAA'' (Some 66) (Some 66))] 0))) ''0xZ'' = None"
    by (simp add: mkState_def store_66_def)
  from updateTokenSocialScore_absent_noop [OF h] h show ?thesis by blast
qed

subsection \<open>The order of the ranking\<close>

text \<open>
  C4, as the spec states it, fails. The spec says that equal final scores are ranked by
  ascending address. The sort of line 123 compares the final scores only, so a tie keeps
  the order in which the store enumerated the keys: with the scores 50, 80, 80 under the
  keys 0xC, 0xB, 0xA, enumerated in this order, the ranking is 0xB, 0xA, 0xC although
  0xA is the smaller address.
\<close>

theorem ranking_tie_counterexample:
  "(''0xA'' :: string) < ''0xB''
   \<and> (\<exists>ranking. fst (getTokenAddressesSorted 0 (mkState store_C_B_A True [] 0)) = Inr ranking
        \<and> map (\<lambda>t. (r_address t, r_finalScore t)) ranking
           = [(''0xB'', 80), (''0xA'', 80), (''0xC'', 50)])"
  by (simp add: read_defs eval_defs store_C_B_A_def less_char_def)

text \<open>
  C4, amended. On a reachable store whose values parse, a rebuilt ranking is sorted
  descending by final score and holds exactly the stored documents under the keys
  matching 0x*; documents with equal final scores keep the order in which the store
  enumerates their keys (the sort is stable); rebuilding again from the unchanged store
  yields the identical order.
\<close>

theorem ranking_sorted_stable:
  assumes "reachable (client s)"
    and "distinct (map fst (db (client s)))"
    and "parsable (db (client s))"
    and "cachedRankings s = [] \<or> RANKING_CACHE_TTL \<le> now - lastRankingUpdate s"
  shows "\<exists>ranking s1. getTokenAddressesSorted now s = (Inr ranking, s1)
     \<and> sorted_wrt (\<lambda>a b. r_finalScore b \<le> r_finalScore a) ranking
     \<and> mset ranking = mset (map toRanked (docsOf (db (client s))))
     \<and> (\<forall>score. filter (\<lambda>t. r_finalScore t = score) ranking
           = filter (\<lambda>t. r_finalScore t = score) (map toRanked (docsOf (db (client s)))))
     \<and> (\<forall>now'. fst (getTokenAddressesSorted now' (s1\<lparr>cachedRankings := []\<rparr>)) = Inr ranking)"
proof -
  let ?docs = "map toRanked (docsOf (db (client s)))"
  obtain r s1 where run: "getTokenAddressesSorted now s = (r, s1)"
    by (cases "getTokenAddressesSorted now s")
  have rank: "storeRanking (client s) = sortDesc ?docs"
    by (rule storeRanking_docs [OF assms(2,3)])
  have r: "r = Inr (sortDesc ?docs)"
    using read_rebuild_result [OF assms(1,4)] run rank by simp
  have c1: "client s1 = client s"
    using read_client [of now s] run by simp
  have again: "fst (getTokenAddressesSorted now' (s1\<lparr>cachedRankings := []\<rparr>)) = Inr (sortDesc ?docs)"
    for now'
    using read_rebuild_result [of "s1\<lparr>cachedRankings := []\<rparr>" now'] assms(1) c1 rank by simp
  show ?thesis
    using run r again sortDesc_sorted [of ?docs] sortDesc_mset [of ?docs] sortDesc_stable [of _ ?docs]
    by (intro exI [of _ "sortDesc ?docs"] exI [of _ s1]) simp
qed

text \<open>
  The scores 50, 80, 80 under the keys 0xC, 0xA, 0xB, enumerated in this order, rank as
  0xA, 0xB, 0xC, and a second rebuild returns the same ranking.
\<close>

theorem ranking_sorted_stable_witness:
  "reachable (client (mkState store_C_A_B True [] 0))
   \<and> distinct (map fst (db (client (mkState store_C_A_B True [] 0))))
   \<and> parsable (db (client (mkState store_C_A_B True [] 0)))
   \<and> cachedRankings (mkState store_C_A_B True [] 0) = []
   \<and> (\<exists>ranking s1. getTokenAddressesSorted 0 (mkState store_C_A_B True [] 0) = (Inr ranking, s1)
        \<and> map (\<lambda>t. (r_address t, r_finalScore t)) ranking
           = [(''0xA'', 80), (''0xB'', 80), (''0xC'', 50)]
        \<and> sorted_wrt (\<lambda>a b. r_finalScore b \<le> r_finalScore a) ranking
        \<and> fst (getTokenAddressesSorted 200000 (s1\<lparr>cachedRankings := []\<rparr>)) = Inr ranking)"
proof -
  let ?s = "mkState store_C_A_B True [] 0"
  have h1: "reachable (client ?s)" by (simp add: mkState_def)
  have h2: "distinct (map fst (db (client ?s)))" by (simp add: mkState_def store_C_A_B_def)
  have h3: "parsable (db (client ?s))" by (simp add: mkState_def store_C_A_B_def parsable_def)
  have h4: "cachedRankings ?s = []" by (simp add: mkState_def)
  have h4': "cachedRankings ?s = [] \<or> RANKING_CACHE_TTL \<le> 0 - lastRankingUpdate ?s"
    using h4 by simp
  from ranking_sorted_stable [OF h1 h2 h3 h4']
  obtain ranking s1 where run: "getTokenAddressesSorted 0 ?s = (Inr ranking, s1)"
    and srt: "sorted_wrt (\<lambda>a b. r_finalScore b \<le> r_finalScore a) ranking"
    and again: "\<And>now'. fst (getTokenAddressesSorted now' (s1\<lparr>cachedRankings := []\<rparr>)) = Inr ranking"
    by blast
  have "fst (getTokenAddressesSorted 0 ?s) = Inr ranking" by (simp add: run)
  then have "map (\<lambda>t. (r_address t, r_finalScore t)) ranking
      = [(''0xA'', 80), (''0xB'', 80), (''0xC'', 50)]"
    by (auto simp: read_defs eval_defs store_C_A_B_def)
  with run srt again [of 200000] h1 h2 h3 h4 show ?thesis
    by (intro conjI exI [of _ ranking] exI [of _ s1]) assumption+
qed

subsection \<open>The freshness window of the snapshot\<close>

text \<open>
  C5, as the spec states it, fails at the boundary. A snapshot that is exactly two
  minutes old is not older than two minutes, and the read still rebuilds: line 104 keeps
  the snapshot only while its age is strictly below \<open>RANKING_CACHE_TTL\<close>.
\<close>

theorem snapshot_boundary_counterexample:
  "cachedRankings (mkState store_66 True [toRanked (mkDoc ''0xB'' ''BBB'' (Some 10) (Some 10))] 0) \<noteq> []
   \<and> \<not> (120000 - lastRankingUpdate
              (mkState store_66 True [toRanked (mkDoc ''0xB'' ''BBB'' (Some 10) (Some 10))] 0)
            > 2 * 60 * 1000)
   \<and> fst (getTokenAddressesSorted 120000
            (mkState store_66 True [toRanked (mkDoc ''0xB'' ''BBB'' (Some 10) (Some 10))] 0))
       = Inr [toRanked (mkDoc ''0xA'' ''AAA'' (Some 66) (Some 66))]
   \<and> fst (getTokenAddressesSorted 120000
            (mkState store_66 True [toRanked (mkDoc ''0xB'' ''BBB'' (Some 10) (Some 10))] 0))
       \<noteq> Inr (cachedRankings
                 (mkState store_66 True [toRanked (mkDoc ''0xB'' ''BBB'' (Some 10) (Some 10))] 0))"
  by (simp add: read_defs eval_defs store_66_def)

text \<open>
  C5, amended. The freshness window is 120000 ms. A ranked read returns the cached
  snapshot, and leaves the state as it is, if the snapshot is non-empty and its age is
  strictly below the window. If there is no snapshot or its age is at least the window,
  and the store is reachable, holds a key matching 0x* and all its values under such keys
  parse, the read returns the ranking of every document under such a key and replaces the
  snapshot and its time stamp by it.
\<close>

theorem ranked_read_cache_policy:
  shows "RANKING_CACHE_TTL = 120000
     \<and> (cachedRankings s \<noteq> [] \<and> now - lastRankingUpdate s < RANKING_CACHE_TTL \<longrightarrow>
          getTokenAddressesSorted now s = (Inr (cachedRankings s), s))
     \<and> ((cachedRankings s = [] \<or> RANKING_CACHE_TTL \<le> now - lastRankingUpdate s)
          \<and> reachable (client s) \<and> distinct (map fst (db (client s)))
          \<and> parsable (db (client s))
          \<and> filter matches_0x (map fst (db (client s))) \<noteq> [] \<longrightarrow>
          (\<exists>ranking. getTokenAddressesSorted now s
              = (Inr ranking, s\<lparr>cachedRankings := ranking, lastRankingUpdate := now\<rparr>)
            \<and> ranking = sortDesc (map toRanked (docsOf (db (client s))))
            \<and> (\<forall>(k, v) \<in> set (db (client s)). matches_0x k \<longrightarrow>
                  (\<exists>d. v = Doc d \<and> toRanked d \<in> set ranking))))"
proof (intro conjI impI)
  show "RANKING_CACHE_TTL = 120000" by (simp add: RANKING_CACHE_TTL_def)
next
  assume "cachedRankings s \<noteq> [] \<and> now - lastRankingUpdate s < RANKING_CACHE_TTL"
  then show "getTokenAddressesSorted now s = (Inr (cachedRankings s), s)"
    by (simp add: read_cached)
next
  let ?ranking = "sortDesc (map toRanked (docsOf (db (client s))))"
  assume a: "(cachedRankings s = [] \<or> RANKING_CACHE_TTL \<le> now - lastRankingUpdate s)
          \<and> reachable (client s) \<and> distinct (map fst (db (client s)))
          \<and> parsable (db (client s))
          \<and> filter matches_0x (map fst (db (client s))) \<noteq> []"
  then have scan: "scanStore (client s) = Inr (docsOf (db (client s)))"
    by (simp add: scanStore_docs)
  have run: "getTokenAddressesSorted now s
      = (Inr ?ranking, s\<lparr>cachedRankings := ?ranking, lastRankingUpdate := now\<rparr>)"
    using a by (intro read_rebuild_full scan) simp_all
  have every: "\<exists>d. v = Doc d \<and> toRanked d \<in> set ?ranking"
    if "(k, v) \<in> set (db (client s))" and "matches_0x k" for k v
  proof -
    from a that have "v \<noteq> Unparsable" by (auto simp: parsable_def)
    then obtain d where v: "v = Doc d" by (cases v) auto
    with that have "d \<in> set (docsOf (db (client s)))" by (auto intro: docsOf_complete)
    then have "toRanked d \<in> set ?ranking"
      by (simp add: sortDesc_def)
    with v show ?thesis by blast
  qed
  show "\<exists>ranking. getTokenAddressesSorted now s
              = (Inr ranking, s\<lparr>cachedRankings := ranking, lastRankingUpdate := now\<rparr>)
            \<and> ranking = sortDesc (map toRanked (docsOf (db (client s))))
            \<and> (\<forall>(k, v) \<in> set (db (client s)). matches_0x k \<longrightarrow>
                  (\<exists>d. v = Doc d \<and> toRanked d \<in> set ranking))"
    using run every by (intro exI [of _ ?ranking]) auto
qed

text \<open>
  A snapshot stamped 0 is returned at time 119999 and rebuilt at time 120000.
\<close>

theorem ranked_read_cache_policy_witness:
  "cachedRankings (mkState store_66 True [toRanked (mkDoc ''0xB'' ''BBB'' (Some 10) (Some 10))] 0) \<noteq> []
   \<and> 119999 - lastRankingUpdate
        (mkState store_66 True [toRanked (mkDoc ''0xB'' ''BBB'' (Some 10) (Some 10))] 0)
       < RANKING_CACHE_TTL
   \<and> getTokenAddressesSorted 119999
        (mkState store_66 True [toRanked (mkDoc ''0xB'' ''BBB'' (Some 10) (Some 10))] 0)
      = (Inr [toRanked (mkDoc ''0xB'' ''BBB'' (Some 10) (Some 10))],
         mkState store_66 True [toRanked (mkDoc ''0xB'' ''BBB'' (Some 10) (Some 10))] 0)
   \<and> RANKING_CACHE_TTL \<le> 120000 - lastRankingUpdate
        (mkState store_66 True [toRanked (mkDoc ''0xB'' ''BBB'' (Some 10) (Some 10))] 0)
   \<and> reachable (client (mkState store_66 True [toRanked (mkDoc ''0xB'' ''BBB'' (Some 10) (Some 10))] 0))
   \<and> distinct (map fst (db (client
        (mkState store_66 True [toRanked (mkDoc ''0xB'' ''BBB'' (Some 10) (Some 10))] 0))))
   \<and> parsable (db (client
        (mkState store_66 True [toRanked (mkDoc ''0xB'' ''BBB'' (Some 10) (Some 10))] 0)))
   \<and> filter matches_0x (map fst (db (client
        (mkState store_66 True [toRanked (mkDoc ''0xB'' ''BBB'' (Some 10) (Some 10))] 0)))) \<noteq> []
   \<and> getTokenAddressesSorted 120000
        (mkState store_66 True [toRanked (mkDoc ''0xB'' ''BBB'' (Some 10) (Some 10))] 0)
      = (Inr [toRanked (mkDoc ''0xA'' ''AAA'' (Some 66) (Some 66))],
         mkState store_66 True [toRanked (mkDoc ''0xA'' ''AAA'' (Some 66) (Some 66))] 120000)"
proof -
  let ?s = "mkState store_66 True [toRanked (mkDoc ''0xB'' ''BBB'' (Some 10) (Some 10))] 0"
  have c: "cachedRankings ?s = [toRanked (mkDoc ''0xB'' ''BBB'' (Some 10) (Some 10))]"
    by (simp add: mkState_def)
  have h1: "cachedRankings ?s \<noteq> []" by (simp add: mkState_def)
  have h2: "119999 - lastRankingUpdate ?s < RANKING_CACHE_TTL"
    by (simp add: mkState_def RANKING_CACHE_TTL_def)
  have h3: "RANKING_CACHE_TTL \<le> 120000 - lastRankingUpdate ?s"
    by (simp add: mkState_def RANKING_CACHE_TTL_def)
  have h4: "reachable (client ?s)" by (simp add: mkState_def)
  have h5: "distinct (map fst (db (client ?s)))" by (simp add: mkState_def store_66_def)
  have h6: "parsable (db (client ?s))" by (simp add: mkState_def store_66_def parsable_def)
  have h7: "filter matches_0x (map fst (db (client ?s))) \<noteq> []"
    by (simp add: mkState_def store_66_def matches_0x_def)
  have docs: "sortDesc (map toRanked (docsOf (db (client ?s))))
      = [toRanked (mkDoc ''0xA'' ''AAA'' (Some 66) (Some 66))]"
    by (simp add: mkState_def store_66_def matches_0x_def sortDesc_def)
  have upd: "?s\<lparr>cachedRankings := [toRanked (mkDoc ''0xA'' ''AAA'' (Some 66) (Some 66))],
          lastRankingUpdate := 120000\<rparr>
      = mkState store_66 True [toRanked (mkDoc ''0xA'' ''AAA'' (Some 66) (Some 66))] 120000"
    by (simp add: mkState_def)
  from ranked_read_cache_policy [of ?s 119999] h1 h2
  have cached: "getTokenAddressesSorted 119999 ?s = (Inr (cachedRankings ?s), ?s)"
    by blast
  from ranked_read_cache_policy [of ?s 120000] h3 h4 h5 h6 h7
  have "getTokenAddressesSorted 120000 ?s
      = (Inr (sortDesc (map toRanked (docsOf (db (client ?s))))),
         ?s\<lparr>cachedRankings := sortDesc (map toRanked (docsOf (db (client ?s)))),
           lastRankingUpdate := 120000\<rparr>)"
    by blast
  then have rebuilt: "getTokenAddressesSorted 120000 ?s
      = (Inr [toRanked (mkDoc ''0xA'' ''AAA'' (Some 66) (Some 66))],
         mkState store_66 True [toRanked (mkDoc ''0xA'' ''AAA'' (Some 66) (Some 66))] 120000)"
    by (simp only: docs upd)
  from cached c have cached': "getTokenAddressesSorted 119999 ?s
      = (Inr [toRanked (mkDoc ''0xB'' ''BBB'' (Some 10) (Some 10))], ?s)"
    by simp
  from h1 h2 cached' h3 h4 h5 h6 h7 rebuilt show ?thesis
    by (intro conjI) assumption+
qed

subsection \<open>An unreachable store\<close>

text \<open>
  C6, as the spec states it, fails. With the store unreachable and a stale snapshot in
  the cache, the read returns the empty order, not the snapshot (the \<open>catch\<close> of
  lines 130-133 returns \<open>[]\<close>). With the store unreachable and no snapshot,
  \<open>GET /top-tokens\<close> answers with status 500, not with an empty sequence: its own
  \<open>mGet\<close> of line 296 rejects and the \<open>catch\<close> of lines 299-301 answers.
\<close>

theorem unreachable_store_counterexample:
  "\<not> reachable (client (mkState store_66 False [toRanked (mkDoc ''0xA'' ''AAA'' (Some 66) (Some 66))] 0))
   \<and> cachedRankings (mkState store_66 False [toRanked (mkDoc ''0xA'' ''AAA'' (Some 66) (Some 66))] 0)
       = [toRanked (mkDoc ''0xA'' ''AAA'' (Some 66) (Some 66))]
   \<and> fst (getTokenAddressesSorted 500000
            (mkState store_66 False [toRanked (mkDoc ''0xA'' ''AAA'' (Some 66) (Some 66))] 0))
       = Inr []
   \<and> \<not> reachable (client (mkState store_66 False [] 0))
   \<and> cachedRankings (mkState store_66 False [] 0) = []
   \<and> fst (app_get_top_tokens None 500000 (mkState store_66 False [] 0))
       = Status500 ''Failed to fetch top tokens''
   \<and> fst (app_get_top_tokens None 500000 (mkState store_66 False [] 0)) \<noteq> Json []"
  by (simp add: app_get_top_tokens_def slice_to_def read_defs eval_defs store_66_def)

text \<open>
  C6, amended. If the store is unreachable during a rebuild (no snapshot, or one whose
  age is at least the window), the ranked read returns the empty order, with or without a
  previous snapshot, never a rejection, and leaves the state as it is;
  \<open>GET /top-tokens\<close> then answers with the 500 response "Failed to fetch top tokens".
\<close>

theorem unreachable_store_read:
  assumes "\<not> reachable (client s)"
    and "cachedRankings s = [] \<or> RANKING_CACHE_TTL \<le> now - lastRankingUpdate s"
  shows "getTokenAddressesSorted now s = (Inr [], s)
     \<and> app_get_top_tokens limitParam now s = (Status500 ''Failed to fetch top tokens'', s)"
proof -
  have run: "getTokenAddressesSorted now s = (Inr [], s)"
    by (rule read_unreachable [OF assms])
  have "client_mGet (client s) ks = Inl RedisError" for ks
    using assms(1) by (simp add: client_mGet_def)
  then have "app_get_top_tokens limitParam now s = (Status500 ''Failed to fetch top tokens'', s)"
    by (simp add: app_get_top_tokens_def run Let_def)
  with run show ?thesis by simp
qed

text \<open>
  A stale snapshot and an unreachable store: the read is empty, the handler answers 500.
\<close>

theorem unreachable_store_read_witness:
  "\<not> reachable (client (mkState store_66 False [toRanked (mkDoc ''0xA'' ''AAA'' (Some 66) (Some 66))] 0))
   \<and> RANKING_CACHE_TTL \<le> 500000 - lastRankingUpdate
        (mkState store_66 False [toRanked (mkDoc ''0xA'' ''AAA'' (Some 66) (Some 66))] 0)
   \<and> getTokenAddressesSorted 500000
        (mkState store_66 False [toRanked (mkDoc ''0xA'' ''AAA'' (Some 66) (Some 66))] 0)
      = (Inr [], mkState store_66 False [toRanked (mkDoc ''0xA'' ''AAA'' (Some 66) (Some 66))] 0)
   \<and> app_get_top_tokens (Some 10) 500000
        (mkState store_66 False [toRanked (mkDoc ''0xA'' ''AAA'' (Some 66) (Some 66))] 0)
      = (Status500 ''Failed to fetch top tokens'',
         mkState store_66 False [toRanked (mkDoc ''0xA'' ''AAA'' (Some 66) (Some 66))] 0)"
proof -
  let ?s = "mkState store_66 False [toRanked (mkDoc ''0xA'' ''AAA'' (Some 66) (Some 66))] 0"
  have h1: "\<not> reachable (client ?s)" by (simp add: mkState_def)
  have h2: "RANKING_CACHE_TTL \<le> 500000 - lastRankingUpdate ?s"
    by (simp add: mkState_def RANKING_CACHE_TTL_def)
  from unreachable_store_read [OF h1 disjI2 [OF h2], of "Some 10"] h1 h2
  show ?thesis by (intro conjI) simp_all
qed

subsection \<open>The records a social cycle refreshes\<close>

text \<open>
  C7, as the spec states it, fails. The spec restricts a cycle to the records whose last
  social refresh is absent or at least the tier's interval old. The cycle has no such
  check: a record of the HIGH window that was refreshed at time 1000 is refreshed again
  by a cycle at time 2000, one second later.
\<close>

theorem cycle_staleness_counterexample:
  "socialLastUpdated doc_refreshed = Some 1000
   \<and> (2000 :: int) - 1000 < 5 * 60 * 1000
   \<and> (0, 20, 5 * 60 * 1000) \<in> set startScheduledUpdates
   \<and> (\<exists>s' d'. updateTokensByRankRange toLowerCase_ascii aaa_social 0 20 2000
          (mkState [(''0xA'', Doc doc_refreshed)] True [] 0) = (Inr (), s')
        \<and> map_of (db (client s')) ''0xA'' = Some (Doc d')
        \<and> socialLastUpdated d' = Some 2000)"
  by (simp add: socialLastUpdated_def doc_refreshed_def startScheduledUpdates_def
      read_defs eval_defs cycle_defs aaa_social_def bullish_def numeral_eq_enat)

text \<open>
  C7, amended. The three timers run the windows [0,20) every 5 minutes, [20,100) every 20
  minutes and [100,\<infinity>) every 30 minutes. A cycle over a rank window, on a reachable store,
  with distinct addresses and at least one ticker in the window and with a successful
  social aggregation for these tickers, refreshes exactly the records whose address is in
  that window of the current ranked order, whenever they were last refreshed; every other
  record stays as it is and no record is created.
\<close>

theorem cycle_refreshes_rank_window:
  assumes "reachable (client s)"
    and "fst (getTokenAddressesSorted now s) = Inr ranking"
    and "window = slice startRank endRank ranking"
    and "distinct (map r_address window)"
    and "tickers = filter (\<lambda>t. t \<noteq> []) (map tickerOf window)"
    and "tickers \<noteq> []"
    and "social tickers = Inr topTrending"
  shows "startScheduledUpdates
       = [(0, 20, 300000), (20, 100, 1200000), (100, \<infinity>, 1800000)]
     \<and> (\<exists>s'. updateTokensByRankRange lc social startRank endRank now s = (Inr (), s')
          \<and> (\<forall>k d. map_of (db (client s)) k = Some (Doc d) \<longrightarrow>
                (if k \<in> r_address ` set window
                 then \<exists>d'. map_of (db (client s')) k = Some (Doc d')
                        \<and> socialLastUpdated d' = Some now
                        \<and> trendingscore d' = trendingscore d
                 else map_of (db (client s')) k = Some (Doc d)))
          \<and> (\<forall>k. map_of (db (client s)) k = None \<longrightarrow> map_of (db (client s')) k = None))"
proof -
  have sched: "startScheduledUpdates
       = [(0, 20, 300000), (20, 100, 1200000), (100, \<infinity>, 1800000)]"
    by (simp add: startScheduledUpdates_def)
  let ?m = "buildAnalysisMap lc topTrending"
  from cycle_effect [of s now ranking startRank endRank social topTrending lc] assms
  obtain s' where run: "updateTokensByRankRange lc social startRank endRank now s = (Inr (), s')"
    and look: "\<And>k. map_of (db (client s')) k
        = refreshStored lc ?m now window k (map_of (db (client s)) k)"
    by auto
  have inside: "\<exists>d'. map_of (db (client s')) k = Some (Doc d')
        \<and> socialLastUpdated d' = Some now \<and> trendingscore d' = trendingscore d"
    if "map_of (db (client s)) k = Some (Doc d)" and "k \<in> r_address ` set window" for k d
  proof -
    from that(2) obtain t where "find (\<lambda>t. r_address t = k) window = Some t"
      by (cases "find (\<lambda>t. r_address t = k) window") (auto simp: find_None_iff)
    then have "map_of (db (client s')) k = Some (Doc (refreshedDoc lc ?m now t d))"
      using that(1) by (simp add: look refreshStored_def)
    moreover have "socialLastUpdated (refreshedDoc lc ?m now t d) = Some now"
      and "trendingscore (refreshedDoc lc ?m now t d) = trendingscore d"
      by (simp_all add: refreshedDoc_def updatedDoc_def socialLastUpdated_def)
    ultimately show ?thesis by blast
  qed
  have outside: "map_of (db (client s')) k = map_of (db (client s)) k"
    if "k \<notin> r_address ` set window" for k
  proof -
    from that have "find (\<lambda>t. r_address t = k) window = None"
      by (auto simp: find_None_iff)
    then show ?thesis by (simp add: look refreshStored_def)
  qed
  have absent: "map_of (db (client s')) k = None" if "map_of (db (client s)) k = None" for k
    using that by (simp add: look refreshStored_def split: option.splits)
  show ?thesis
    using sched run inside outside absent
    by (intro conjI exI [of _ s']) (simp_all split del: if_split, auto)
qed

text \<open>
  Three records ranked 0xA, 0xB, 0xC and the window [0,1): 0xA is refreshed, 0xB is not.
\<close>

theorem cycle_refreshes_rank_window_witness:
  "reachable (client (mkState store_C_A_B True [] 0))
   \<and> fst (getTokenAddressesSorted 1000 (mkState store_C_A_B True [] 0))
       = Inr [toRanked (mkDoc ''0xA'' ''AAA'' (Some 80) (Some 80)),
              toRanked (mkDoc ''0xB'' ''BBB'' (Some 80) (Some 80)),
              toRanked (mkDoc ''0xC'' ''CCC'' (Some 50) (Some 50))]
   \<and> [toRanked (mkDoc ''0xA'' ''AAA'' (Some 80) (Some 80))]
       = slice 0 (enat 1)
           [toRanked (mkDoc ''0xA'' ''AAA'' (Some 80) (Some 80)),
            toRanked (mkDoc ''0xB'' ''BBB'' (Some 80) (Some 80)),
            toRanked (mkDoc ''0xC'' ''CCC'' (Some 50) (Some 50))]
   \<and> distinct (map r_address [toRanked (mkDoc ''0xA'' ''AAA'' (Some 80) (Some 80))])
   \<and> [''AAA''] = filter (\<lambda>t. t \<noteq> [])
          (map tickerOf [toRanked (mkDoc ''0xA'' ''AAA'' (Some 80) (Some 80))])
   \<and> [''AAA''] \<noteq> []
   \<and> aaa_social [''AAA''] = Inr [bullish ''AAA'']
   \<and> (\<exists>s'. updateTokensByRankRange toLowerCase_ascii aaa_social 0 (enat 1) 1000 (mkState store_C_A_B True [] 0)
          = (Inr (), s')
        \<and> (\<exists>d'. map_of (db (client s')) ''0xA'' = Some (Doc d')
              \<and> socialLastUpdated d' = Some 1000)
        \<and> map_of (db (client s')) ''0xB'' = Some (Doc (mkDoc ''0xB'' ''BBB'' (Some 80) (Some 80))))"
proof -
  let ?s = "mkState store_C_A_B True [] 0"
  let ?a = "toRanked (mkDoc ''0xA'' ''AAA'' (Some 80) (Some 80))"
  let ?b = "toRanked (mkDoc ''0xB'' ''BBB'' (Some 80) (Some 80))"
  let ?c = "toRanked (mkDoc ''0xC'' ''CCC'' (Some 50) (Some 50))"
  have h1: "reachable (client ?s)" by (simp add: mkState_def)
  have h2: "fst (getTokenAddressesSorted 1000 ?s) = Inr [?a, ?b, ?c]"
    by (simp add: read_defs eval_defs store_C_A_B_def)
  have h3: "[?a] = slice 0 (enat 1) [?a, ?b, ?c]" by (simp add: slice_def)
  have h4: "distinct (map r_address [?a])" by simp
  have h5: "[''AAA''] = filter (\<lambda>t. t \<noteq> []) (map tickerOf [?a])"
    by (simp add: tickerOf_def eval_defs)
  have h6: "[''AAA''] \<noteq> []" by simp
  have h7: "aaa_social [''AAA''] = Inr [bullish ''AAA'']" by (simp add: aaa_social_def)
  have la: "map_of (db (client ?s)) ''0xA'' = Some (Doc (mkDoc ''0xA'' ''AAA'' (Some 80) (Some 80)))"
    and lb: "map_of (db (client ?s)) ''0xB'' = Some (Doc (mkDoc ''0xB'' ''BBB'' (Some 80) (Some 80)))"
    by (simp_all add: mkState_def store_C_A_B_def)
  have ina: "''0xA'' \<in> r_address ` set [?a]" and outb: "''0xB'' \<notin> r_address ` set [?a]"
    by (simp_all add: toRanked_def mkDoc_def)
  from cycle_refreshes_rank_window [where social = aaa_social and tickers = "[''AAA'']",
      OF h1 h2 h3 h4 h5 h6 h7]
  obtain s' where run: "updateTokensByRankRange toLowerCase_ascii aaa_social 0 (enat 1) 1000 ?s = (Inr (), s')"
    and eff: "\<And>k d. map_of (db (client ?s)) k = Some (Doc d) \<Longrightarrow>
        (if k \<in> r_address ` set [?a]
         then \<exists>d'. map_of (db (client s')) k = Some (Doc d')
                \<and> socialLastUpdated d' = Some 1000 \<and> trendingscore d' = trendingscore d
         else map_of (db (client s')) k = Some (Doc d))"
    by blast
  from eff [OF la] ina
  have ra: "\<exists>d'. map_of (db (client s')) ''0xA'' = Some (Doc d') \<and> socialLastUpdated d' = Some 1000"
    by (simp only: if_True) blast
  from eff [OF lb] outb
  have rb: "map_of (db (client s')) ''0xB'' = Some (Doc (mkDoc ''0xB'' ''BBB'' (Some 80) (Some 80)))"
    by (simp only: if_False)
  from h1 h2 h3 h4 h5 h6 h7 run ra rb show ?thesis
    by (intro conjI exI [of _ s']) assumption+
qed

subsection \<open>A token without social data\<close>

text \<open>
  C8, as the spec states it, fails. The spec says that for a token whose ticker is absent
  from the aggregation result the stored social score is not replaced. Line 218 gives such
  a token the social score 30 and lines 203-216 a neutral analysis, and both are written:
  a record with the social score 90 has the social score 30 and the final score 52
  afterwards.
\<close>

theorem absent_ticker_counterexample:
  "socialScore doc_refreshed = Some 90
   \<and> no_social [''AAA''] = Inr []
   \<and> buildAnalysisMap toLowerCase_ascii [] (tokenKey toLowerCase_ascii (toRanked doc_refreshed))
       = None
   \<and> (\<exists>s' d'. updateTokensByRankRange toLowerCase_ascii no_social 0 20 400000
          (mkState [(''0xA'', Doc doc_refreshed)] True [] 0) = (Inr (), s')
        \<and> map_of (db (client s')) ''0xA'' = Some (Doc d')
        \<and> socialScore d' = Some 30
        \<and> finalScore d' = Some 52)"
  by (simp add: doc_refreshed_def read_defs eval_defs cycle_defs no_social_def numeral_eq_enat
      lit_def fl_values)

text \<open>
  C8, amended. Whatever \<open>toLowerCase\<close> does, for a token of the window whose lower-cased
  ticker is absent from the aggregation result the cycle does not fail; it replaces the
  stored social score by the fixed default 30, stores the neutral analysis with the
  recommendation "hold", and recomputes the final score as \<open>Math.round\<close> of
  onChainScore * 0.6 + 30 * 0.4 in doubles, where 30 * 0.4 is the double 12 (\<open>null\<close> when
  the result is not a finite number).
\<close>

theorem cycle_absent_ticker:
  assumes "reachable (client s)"
    and "fst (getTokenAddressesSorted now s) = Inr ranking"
    and "window = slice startRank endRank ranking"
    and "distinct (map r_address window)"
    and "tickers = filter (\<lambda>t. t \<noteq> []) (map tickerOf window)"
    and "tickers \<noteq> []"
    and "social tickers = Inr topTrending"
    and "t \<in> set window"
    and "buildAnalysisMap lc topTrending (tokenKey lc t) = None"
    and "map_of (db (client s)) (r_address t) = Some (Doc d)"
  shows "\<exists>s' d'. updateTokensByRankRange lc social startRank endRank now s = (Inr (), s')
     \<and> map_of (db (client s')) (r_address t) = Some (Doc d')
     \<and> socialScore d' = Some 30
     \<and> finalScore d' = JSON_number (Math_round
           (jsadd (jsmul (Num (num_or (trendingscore d) 0)) (lit 0.6)) (Num 12)))
     \<and> map_option sa_sentiment (socialAnalysis d') = Some ''neutral''
     \<and> map_option sa_recommendation (socialAnalysis d') = Some ''hold''
     \<and> socialLastUpdated d' = Some now"
proof -
  let ?m = "buildAnalysisMap lc topTrending"
  let ?d' = "refreshedDoc lc ?m now t d"
  from cycle_effect [of s now ranking startRank endRank social topTrending lc] assms(1-7)
  obtain s' where run: "updateTokensByRankRange lc social startRank endRank now s = (Inr (), s')"
    and look: "\<And>k. map_of (db (client s')) k
        = refreshStored lc ?m now window k (map_of (db (client s)) k)"
    by auto
  have "find (\<lambda>x. r_address x = r_address t) window = Some t"
    by (rule find_distinct [OF assms(4,8)])
  then have stored: "map_of (db (client s')) (r_address t) = Some (Doc ?d')"
    using assms(10) by (simp add: look refreshStored_def)
  have sc: "tokenSocialScore lc ?m t = Num 30" and an: "tokenFinalAnalysis lc ?m t = noMentions t"
    using assms(9) by (simp_all add: tokenSocialScore_def tokenFinalAnalysis_def)
  have twelve: "jsmul (Num 30) (lit 0.4) = Num 12"
    by (simp add: lit_def fl_values)
  have "socialScore ?d' = Some 30"
    and "finalScore ?d' = JSON_number (Math_round
           (jsadd (jsmul (Num (num_or (trendingscore d) 0)) (lit 0.6)) (Num 12)))"
    and "map_option sa_sentiment (socialAnalysis ?d') = Some ''neutral''"
    and "map_option sa_recommendation (socialAnalysis ?d') = Some ''hold''"
    and "socialLastUpdated ?d' = Some now"
    unfolding refreshedDoc_def updatedDoc_def fusedScore_def sc an twelve
    by (simp_all add: noMentions_def socialLastUpdated_def)
  with run stored show ?thesis
    by (intro exI [of _ s'] exI [of _ ?d'] conjI) assumption+
qed

text \<open>
  The record with the on-chain score 42.49999999999999 and an empty aggregation result:
  the sum of line 148 is the double 37.5, so the social score is 30 and the final score 38.
\<close>

theorem cycle_absent_ticker_witness:
  "reachable (client (mkState store_42 True [] 0))
   \<and> fst (getTokenAddressesSorted 1000 (mkState store_42 True [] 0))
       = Inr [toRanked (mkDoc ''0xA'' ''AAA'' (Some (5981343255101439 / 140737488355328))
                (Some (5981343255101439 / 140737488355328)))]
   \<and> [toRanked (mkDoc ''0xA'' ''AAA'' (Some (5981343255101439 / 140737488355328))
          (Some (5981343255101439 / 140737488355328)))]
       = slice 0 20 [toRanked (mkDoc ''0xA'' ''AAA'' (Some (5981343255101439 / 140737488355328))
          (Some (5981343255101439 / 140737488355328)))]
   \<and> distinct (map r_address [toRanked (mkDoc ''0xA'' ''AAA''
          (Some (5981343255101439 / 140737488355328))
          (Some (5981343255101439 / 140737488355328)))])
   \<and> [''AAA''] = filter (\<lambda>t. t \<noteq> [])
          (map tickerOf [toRanked (mkDoc ''0xA'' ''AAA''
             (Some (5981343255101439 / 140737488355328))
             (Some (5981343255101439 / 140737488355328)))])
   \<and> [''AAA''] \<noteq> []
   \<and> no_social [''AAA''] = Inr []
   \<and> toRanked (mkDoc ''0xA'' ''AAA'' (Some (5981343255101439 / 140737488355328))
          (Some (5981343255101439 / 140737488355328)))
       \<in> set [toRanked (mkDoc ''0xA'' ''AAA'' (Some (5981343255101439 / 140737488355328))
          (Some (5981343255101439 / 140737488355328)))]
   \<and> buildAnalysisMap toLowerCase_ascii []
        (tokenKey toLowerCase_ascii (toRanked (mkDoc ''0xA'' ''AAA''
           (Some (5981343255101439 / 140737488355328))
           (Some (5981343255101439 / 140737488355328))))) = None
   \<and> map_of (db (client (mkState store_42 True [] 0)))
        (r_address (toRanked (mkDoc ''0xA'' ''AAA'' (Some (5981343255101439 / 140737488355328))
           (Some (5981343255101439 / 140737488355328)))))
       = Some (Doc (mkDoc ''0xA'' ''AAA'' (Some (5981343255101439 / 140737488355328))
           (Some (5981343255101439 / 140737488355328))))
   \<and> (\<exists>s' d'. updateTokensByRankRange toLowerCase_ascii no_social 0 20 1000
          (mkState store_42 True [] 0) = (Inr (), s')
        \<and> map_of (db (client s')) ''0xA'' = Some (Doc d')
        \<and> socialScore d' = Some 30
        \<and> finalScore d' = Some 38
        \<and> socialLastUpdated d' = Some 1000)"
proof -
  let ?s = "mkState store_42 True [] 0"
  let ?doc = "mkDoc ''0xA'' ''AAA'' (Some (5981343255101439 / 140737488355328))
      (Some (5981343255101439 / 140737488355328))"
  let ?a = "toRanked ?doc"
  have h1: "reachable (client ?s)" by (simp add: mkState_def)
  have h2: "fst (getTokenAddressesSorted 1000 ?s) = Inr [?a]"
    by (simp add: read_defs eval_defs store_42_def)
  have h3: "[?a] = slice 0 20 [?a]" by (simp add: slice_def numeral_eq_enat)
  have h4: "distinct (map r_address [?a])" by simp
  have h5: "[''AAA''] = filter (\<lambda>t. t \<noteq> []) (map tickerOf [?a])"
    by (simp add: tickerOf_def eval_defs)
  have h6: "[''AAA''] \<noteq> []" by simp
  have h7: "no_social [''AAA''] = Inr []" by (simp add: no_social_def)
  have h8: "?a \<in> set [?a]" by simp
  have h9: "buildAnalysisMap toLowerCase_ascii [] (tokenKey toLowerCase_ascii ?a) = None"
    by (simp add: buildAnalysisMap_def)
  have h10: "map_of (db (client ?s)) (r_address ?a) = Some (Doc ?doc)"
    by (simp add: mkState_def store_42_def toRanked_def mkDoc_def)
  have addr: "r_address ?a = ''0xA''" by (simp add: toRanked_def mkDoc_def)
  have val: "JSON_number (Math_round (jsadd
      (jsmul (Num (num_or (trendingscore ?doc) 0)) (lit 0.6)) (Num 12))) = Some 38"
    by (simp add: mkDoc_def num_or_def lit_def fl_values)
  from cycle_absent_ticker [where social = no_social and tickers = "[''AAA'']",
      OF h1 h2 h3 h4 h5 h6 h7 h8 h9 h10]
  obtain s' d' where run: "updateTokensByRankRange toLowerCase_ascii no_social 0 20 1000 ?s
        = (Inr (), s')"
    and st: "map_of (db (client s')) ''0xA'' = Some (Doc d')"
    and sc: "socialScore d' = Some 30"
    and fs: "finalScore d' = Some 38"
    and lu: "socialLastUpdated d' = Some 1000"
    unfolding addr val by blast
  from h1 h2 h3 h4 h5 h6 h7 h8 h9 h10 run st sc fs lu show ?thesis
    by (intro conjI exI [of _ s'] exI [of _ d']) assumption+
qed

subsection \<open>The ranking key\<close>

text \<open>
  C10. In a rebuilt ranking each entry comes from a stored document, and its ranking key
  is the document's finalScore if that is present and not 0, otherwise its trendingscore
  if that is present and not 0, otherwise 0. So a record without a finalScore is ranked by
  its trendingscore, and so is a record whose finalScore is 0.
\<close>

theorem ranking_key:
  assumes "reachable (client s)"
    and "distinct (map fst (db (client s)))"
    and "parsable (db (client s))"
    and "cachedRankings s = [] \<or> RANKING_CACHE_TTL \<le> now - lastRankingUpdate s"
  shows "\<exists>ranking. fst (getTokenAddressesSorted now s) = Inr ranking
     \<and> mset ranking = mset (map toRanked (docsOf (db (client s))))
     \<and> (\<forall>d. r_finalScore (toRanked d) =
           (case finalScore d of
              Some f \<Rightarrow> if f \<noteq> 0 then f
                else (case trendingscore d of Some t \<Rightarrow> if t \<noteq> 0 then t else 0 | None \<Rightarrow> 0)
            | None \<Rightarrow> (case trendingscore d of Some t \<Rightarrow> if t \<noteq> 0 then t else 0 | None \<Rightarrow> 0)))
     \<and> (\<forall>d t. finalScore d = None \<and> trendingscore d = Some t \<longrightarrow> r_finalScore (toRanked d) = t)
     \<and> (\<forall>d t. finalScore d = Some 0 \<and> trendingscore d = Some t \<longrightarrow> r_finalScore (toRanked d) = t)"
proof -
  let ?ranking = "sortDesc (map toRanked (docsOf (db (client s))))"
  have "fst (getTokenAddressesSorted now s) = Inr ?ranking"
    using read_rebuild_result [OF assms(1,4)] storeRanking_docs [OF assms(2,3)] by simp
  moreover have "mset ?ranking = mset (map toRanked (docsOf (db (client s))))"
    by (rule sortDesc_mset)
  moreover have "r_finalScore (toRanked d) =
           (case finalScore d of
              Some f \<Rightarrow> if f \<noteq> 0 then f
                else (case trendingscore d of Some t \<Rightarrow> if t \<noteq> 0 then t else 0 | None \<Rightarrow> 0)
            | None \<Rightarrow> (case trendingscore d of Some t \<Rightarrow> if t \<noteq> 0 then t else 0 | None \<Rightarrow> 0))" for d
    by (simp add: toRanked_def num_or_def split: option.splits)
  moreover have "r_finalScore (toRanked d) = t" if "finalScore d = None \<and> trendingscore d = Some t" for d t
    using that by (simp add: toRanked_def num_or_def)
  moreover have "r_finalScore (toRanked d) = t" if "finalScore d = Some 0 \<and> trendingscore d = Some t" for d t
    using that by (simp add: toRanked_def num_or_def)
  ultimately show ?thesis by (intro exI [of _ ?ranking]) simp
qed

text \<open>
  Final score absent (on-chain 40), final score 0 (on-chain 70), final score 55: the keys
  are 40, 70 and 55.
\<close>

theorem ranking_key_witness:
  "reachable (client (mkState store_unfused True [] 0))
   \<and> distinct (map fst (db (client (mkState store_unfused True [] 0))))
   \<and> parsable (db (client (mkState store_unfused True [] 0)))
   \<and> cachedRankings (mkState store_unfused True [] 0) = []
   \<and> (\<exists>ranking. fst (getTokenAddressesSorted 0 (mkState store_unfused True [] 0)) = Inr ranking
        \<and> mset ranking = mset (map toRanked (docsOf (db (client (mkState store_unfused True [] 0)))))
        \<and> map (\<lambda>t. (r_address t, r_finalScore t)) ranking
           = [(''0xB'', 70), (''0xC'', 55), (''0xA'', 40)])
   \<and> r_finalScore (toRanked (mkDoc ''0xA'' ''AAA'' (Some 40) None)) = 40
   \<and> r_finalScore (toRanked (mkDoc ''0xB'' ''BBB'' (Some 70) (Some 0))) = 70"
proof -
  let ?s = "mkState store_unfused True [] 0"
  have h1: "reachable (client ?s)" by (simp add: mkState_def)
  have h2: "distinct (map fst (db (client ?s)))" by (simp add: mkState_def store_unfused_def)
  have h3: "parsable (db (client ?s))" by (simp add: mkState_def store_unfused_def parsable_def)
  have h4: "cachedRankings ?s = []" by (simp add: mkState_def)
  have fa: "finalScore (mkDoc ''0xA'' ''AAA'' (Some 40) None) = None
      \<and> trendingscore (mkDoc ''0xA'' ''AAA'' (Some 40) None) = Some 40"
    and fb: "finalScore (mkDoc ''0xB'' ''BBB'' (Some 70) (Some 0)) = Some 0
      \<and> trendingscore (mkDoc ''0xB'' ''BBB'' (Some 70) (Some 0)) = Some 70"
    by (simp_all add: mkDoc_def)
  from ranking_key [OF h1 h2 h3 disjI1 [OF h4], of 0]
  obtain ranking where run: "fst (getTokenAddressesSorted 0 ?s) = Inr ranking"
    and ms: "mset ranking = mset (map toRanked (docsOf (db (client ?s))))"
    and unfused: "\<And>d t. finalScore d = None \<and> trendingscore d = Some t \<Longrightarrow>
        r_finalScore (toRanked d) = t"
    and zero: "\<And>d t. finalScore d = Some 0 \<and> trendingscore d = Some t \<Longrightarrow>
        r_finalScore (toRanked d) = t"
    by blast
  from run have order: "map (\<lambda>t. (r_address t, r_finalScore t)) ranking
      = [(''0xB'', 70), (''0xC'', 55), (''0xA'', 40)]"
    by (auto simp: read_defs eval_defs store_unfused_def)
  from h1 h2 h3 h4 run ms order unfused [OF fa] zero [OF fb] show ?thesis
    by (intro conjI exI [of _ ranking]) assumption+
qed

end
